theory Spec2Isabelle
  imports Complex_Main
begin

section \<open>The host object model\<close>

text \<open>
  The material processor works on objects owned by the host application: a material with
  a node graph (nodes and links), the registry of loaded images, and the file system.
  Objects of the host are mutable and are referred to by handle. A node handle is the
  position of the node in the node collection of the material, an image handle is the
  position of the image in the registry; the source never removes a node or an image, so
  a handle stays valid once it has been given out. Iteration over \<open>node_tree.nodes\<close> and
  \<open>node_tree.links\<close> is iteration over the two lists, in list order.
\<close>

datatype error = AttributeError | UnboundLocalError | IndexError | RuntimeError

datatype node_type =
    BSDF_PRINCIPLED | TEX_IMAGE | NORMAL_MAP | OUTPUT_MATERIAL | MIX_RGB | RGB
  | BSDF_TRANSLUCENT | MIX_SHADER | ADD_SHADER | OTHER string

text \<open>
  A socket of a node is addressed the way the source addresses it: by name
  (\<open>inputs['Fac']\<close>) or by position (\<open>inputs[1]\<close>). Whether the socket belongs to
  \<open>inputs\<close> or to \<open>outputs\<close> follows from the end of the link it is used at. Which
  sockets a node has is not recorded: every socket that the source addresses is taken
  to be there, so the \<open>KeyError\<close> of the host for a socket that a node lacks has no
  counterpart here.
\<close>

datatype socket = Named string | Indexed nat

datatype sockval = Scalar real | Colour real real real real

text \<open>
  A pixel component is a floating-point number. Only the comparison \<open>!=\<close> is applied to
  components, so a component is either a number or a not-a-number value, which differs
  from everything, itself included.
\<close>

datatype pixval = Fin real | NaN

record bpy_image =
  filepath :: string
  colorspace :: string
  pixels :: "pixval list"

record node =
  ntype :: node_type
  image :: "nat option"
  blend_type :: string
  location :: "real \<times> real"
  input_default :: "(socket \<times> sockval) list"
  output_default :: "(socket \<times> sockval) list"

record link =
  from_node :: nat
  from_socket :: socket
  to_node :: nat
  to_socket :: socket

record scene =
  material_name :: string
  nodes :: "node list"
  links :: "link list"
  images :: "bpy_image list"

text \<open>
  What the processor reads from outside the scene: \<open>listdir\<close> is \<open>os.listdir\<close>
  (\<open>None\<close> when it raises \<open>OSError\<close>), \<open>decode\<close> gives the colour space and the pixel
  buffer that \<open>bpy.data.images.load\<close> produces for a file (\<open>None\<close> when the file cannot
  be read as an image and the load raises \<open>RuntimeError\<close>), \<open>blend_dir\<close> is the
  directory of the open scene file, against which \<open>bpy.path.abspath\<close> resolves a path
  that starts with two slashes.
\<close>

record host =
  listdir :: "string \<Rightarrow> string list option"
  decode :: "string \<Rightarrow> (string \<times> pixval list) option"
  blend_dir :: string

record material_processor =
  file_path :: string
  base_name :: string
  principled_node :: "nat option"

subsection \<open>Strings and paths\<close>

text \<open>
  Characters are the code points below 256. \<open>str.lower\<close> maps the capital letters of
  this range to their small letters and leaves every other character alone. The small
  letter is 32 above its capital, whose bit of value 32 is clear.
\<close>

fun lower_char :: "char \<Rightarrow> char" where
  "lower_char (Char b0 b1 b2 b3 b4 b5 b6 b7) =
     (let n = (of_char (Char b0 b1 b2 b3 b4 b5 b6 b7) :: nat)
      in if (65 \<le> n \<and> n \<le> 90) \<or> (192 \<le> n \<and> n \<le> 222 \<and> n \<noteq> 215)
         then Char b0 b1 b2 b3 b4 True b6 b7
         else Char b0 b1 b2 b3 b4 b5 b6 b7)"

definition lower :: "string \<Rightarrow> string" where
  "lower s = map lower_char s"

text \<open>\<open>os.path.join\<close> and \<open>os.path.basename\<close> of \<open>posixpath\<close>, for two components.\<close>

definition path_join :: "string \<Rightarrow> string \<Rightarrow> string" where
  "path_join a b =
     (if b \<noteq> [] \<and> hd b = CHR ''/'' then b
      else if a = [] \<or> last a = CHR ''/'' then a @ b
      else a @ ''/'' @ b)"

definition basename :: "string \<Rightarrow> string" where
  "basename p = rev (takeWhile (\<lambda>c. c \<noteq> CHR ''/'') (rev p))"

definition abspath :: "host \<Rightarrow> string \<Rightarrow> string" where
  "abspath h p = (if take 2 p = ''//'' then path_join (blend_dir h) (drop 2 p) else p)"

text \<open>
  \<open>pattern.search(s)\<close> for a pattern compiled from an escaped literal with
  \<open>re.IGNORECASE\<close>: the start of the leftmost place where the literal occurs in \<open>s\<close>,
  letters compared without case.
\<close>

definition match_at :: "string \<Rightarrow> string \<Rightarrow> bool" where
  "match_at pat s = (length pat \<le> length s \<and> lower (take (length pat) s) = lower pat)"

fun search :: "string \<Rightarrow> string \<Rightarrow> nat option" where
  "search pat [] = (if pat = [] then Some 0 else None)"
| "search pat (c # cs) =
     (if match_at pat (c # cs) then Some 0 else map_option Suc (search pat cs))"

text \<open>\<open>name.split('.')[0]\<close>: the part of the name before its first full stop.\<close>

definition split_first :: "string \<Rightarrow> string" where
  "split_first s = takeWhile (\<lambda>c. c \<noteq> CHR ''.'') s"

section \<open>Initialisation\<close>

text \<open>
  The loop \<open>for node in nodes: if node.type == ty: ...\<close> that stops at the first node of
  the type; \<open>k\<close> is the handle of the head of the list.
\<close>

fun first_of_type :: "node_type \<Rightarrow> nat \<Rightarrow> node list \<Rightarrow> nat option" where
  "first_of_type ty k [] = None"
| "first_of_type ty k (n # ns) =
     (if ntype n = ty then Some k else first_of_type ty (Suc k) ns)"

definition find_principled_node :: "scene \<Rightarrow> nat option" where
  "find_principled_node s = first_of_type BSDF_PRINCIPLED 0 (nodes s)"

definition suffixes :: "string list" where
  "suffixes = [''_alb'', ''_emm'', ''_emi'']"

text \<open>The inner loop of \<open>_find_base_texture\<close>: the patterns in order, on one file name.\<close>

fun match_suffixes :: "string list \<Rightarrow> string \<Rightarrow> string option" where
  "match_suffixes [] b = None"
| "match_suffixes (p # ps) b =
     (case search p b of Some k \<Rightarrow> Some (take k b) | None \<Rightarrow> match_suffixes ps b)"

definition image_filename :: "host \<Rightarrow> bpy_image \<Rightarrow> string" where
  "image_filename h img = basename (abspath h (filepath img))"

text \<open>The outer loop: the nodes in order; \<open>None\<close> is the \<open>return None\<close> after the loop.\<close>

fun find_base_texture_loop :: "host \<Rightarrow> bpy_image list \<Rightarrow> node list \<Rightarrow> string option" where
  "find_base_texture_loop h imgs [] = None"
| "find_base_texture_loop h imgs (n # ns) =
     (case (if ntype n = TEX_IMAGE then image n else None) of
        None \<Rightarrow> find_base_texture_loop h imgs ns
      | Some i \<Rightarrow>
          (case match_suffixes suffixes (image_filename h (imgs ! i)) of
             Some b \<Rightarrow> Some b
           | None \<Rightarrow> find_base_texture_loop h imgs ns))"

definition find_base_texture :: "host \<Rightarrow> scene \<Rightarrow> string option" where
  "find_base_texture h s = find_base_texture_loop h (images s) (nodes s)"

text \<open>
  The material is an object of the host, so \<open>not self.material\<close> is false and the
  result is always the string.
\<close>

definition find_base_from_material :: "scene \<Rightarrow> string" where
  "find_base_from_material s = split_first (material_name s)"

text \<open>
  \<open>__init__\<close>. Python's \<open>a or b\<close> is \<open>b\<close> when \<open>a\<close> is \<open>None\<close> and also when \<open>a\<close> is
  the empty string.
\<close>

definition init :: "host \<Rightarrow> scene \<Rightarrow> string \<Rightarrow> material_processor" where
  "init h s path =
     \<lparr> file_path = path,
       base_name = (case find_base_texture h s of
                      None \<Rightarrow> find_base_from_material s
                    | Some b \<Rightarrow> if b = [] then find_base_from_material s else b),
       principled_node = find_principled_node s \<rparr>"

section \<open>Operations of the host on the scene\<close>

text \<open>
  \<open>nodes.new\<close> appends a node of the given type and returns its handle. A fresh node
  has no image, blend type \<open>MIX\<close> and stands at the origin.
\<close>

definition new_node :: "node_type \<Rightarrow> node" where
  "new_node ty =
     \<lparr> ntype = ty, image = None, blend_type = ''MIX'', location = (0, 0),
       input_default = [], output_default = [] \<rparr>"

definition nodes_new :: "node_type \<Rightarrow> scene \<Rightarrow> nat \<times> scene" where
  "nodes_new ty s = (length (nodes s), s\<lparr>nodes := nodes s @ [new_node ty]\<rparr>)"

definition update_node :: "nat \<Rightarrow> (node \<Rightarrow> node) \<Rightarrow> scene \<Rightarrow> scene" where
  "update_node n f s = s\<lparr>nodes := (nodes s)[n := f (nodes s ! n)]\<rparr>"

definition set_default :: "socket \<Rightarrow> sockval \<Rightarrow> (socket \<times> sockval) list \<Rightarrow> (socket \<times> sockval) list" where
  "set_default k v ds = (k, v) # filter (\<lambda>d. fst d \<noteq> k) ds"

text \<open>
  \<open>bpy.data.images.load\<close> raises \<open>RuntimeError\<close> when the file cannot be read as an
  image. Otherwise it appends a new image to the registry, on every call, and returns
  its handle.
\<close>

definition images_load :: "host \<Rightarrow> string \<Rightarrow> scene \<Rightarrow> error + nat \<times> scene" where
  "images_load h path s =
     (case decode h path of
        None \<Rightarrow> Inl RuntimeError
      | Some d \<Rightarrow>
          Inr (length (images s),
               s\<lparr>images := images s @
                   [\<lparr> filepath = path, colorspace = fst d, pixels = snd d \<rparr>]\<rparr>))"

definition set_colorspace :: "nat \<Rightarrow> string \<Rightarrow> scene \<Rightarrow> scene" where
  "set_colorspace i cs s = s\<lparr>images := (images s)[i := (images s ! i)\<lparr>colorspace := cs\<rparr>]\<rparr>"

text \<open>
  \<open>links.new(output, input)\<close>: an input socket takes one link, so the host drops the
  links that end at the input before it appends the new one.
\<close>

definition links_new :: "nat \<times> socket \<Rightarrow> nat \<times> socket \<Rightarrow> scene \<Rightarrow> scene" where
  "links_new out inp s =
     s\<lparr>links := filter (\<lambda>l. \<not> (to_node l = fst inp \<and> to_socket l = snd inp)) (links s) @
          [\<lparr> from_node = fst out, from_socket = snd out,
             to_node = fst inp, to_socket = snd inp \<rparr>]\<rparr>"

text \<open>The links that end at an input socket (\<open>socket.links\<close>), as their sources.\<close>

definition links_into :: "scene \<Rightarrow> nat \<Rightarrow> socket \<Rightarrow> (nat \<times> socket) list" where
  "links_into s n k =
     map (\<lambda>l. (from_node l, from_socket l))
       (filter (\<lambda>l. to_node l = n \<and> to_socket l = k) (links s))"

section \<open>Texture resolution and import\<close>

definition find_texture_file :: "host \<Rightarrow> string \<Rightarrow> string \<Rightarrow> string \<Rightarrow> string option" where
  "find_texture_file h dir_path base sfx =
     (case listdir h dir_path of
        None \<Rightarrow> None
      | Some files \<Rightarrow>
          (let expected_filename = base @ sfx @ ''.png''
           in case find (\<lambda>file. lower file = lower expected_filename) files of
                None \<Rightarrow> None
              | Some file \<Rightarrow> Some (path_join dir_path file)))"

text \<open>
  The result \<open>Inr None\<close> is the \<open>return False\<close> of the source, \<open>Inr (Some n)\<close> the new
  node. The load stands outside the \<open>try\<close> and after \<open>nodes.new\<close>: when it raises, the
  error goes to the caller, and the scene, given beside the result, keeps the node that
  was just made, without an image.
\<close>

definition import_texture ::
    "host \<Rightarrow> material_processor \<Rightarrow> string \<Rightarrow> bool \<Rightarrow> scene \<Rightarrow>
       (error + nat option) \<times> scene" where
  "import_texture h mp suffix non_color s =
     (case find_texture_file h (file_path mp) (base_name mp) suffix of
        None \<Rightarrow> (Inr None, s)
      | Some texture_path \<Rightarrow>
          if texture_path = [] then (Inr None, s)
          else
            (let (tex_image_node, s1) = nodes_new TEX_IMAGE s
             in case images_load h texture_path s1 of
                  Inl err \<Rightarrow> (Inl err, s1)
                | Inr (img, s2) \<Rightarrow>
                    (let s3 = update_node tex_image_node (\<lambda>n. n\<lparr>image := Some img\<rparr>) s2;
                         s4 = (if non_color then set_colorspace img ''Non-Color'' s3 else s3)
                     in (Inr (Some tex_image_node), s4))))"

section \<open>The linking helper\<close>

definition link_texture_principled_node ::
    "material_processor \<Rightarrow> nat option \<Rightarrow> string \<Rightarrow> scene \<Rightarrow> error + scene" where
  "link_texture_principled_node mp tex_image_node input_name s =
     (case tex_image_node of
        None \<Rightarrow> Inr s
      | Some t \<Rightarrow>
          (case principled_node mp of
             None \<Rightarrow> Inl AttributeError
           | Some p \<Rightarrow> Inr (links_new (t, Named ''Color'') (p, Named input_name) s)))"

section \<open>Normal map\<close>

text \<open>
  A local name of the source that no statement has assigned yet is \<open>Unbound\<close>; reading
  it raises \<open>UnboundLocalError\<close>.
\<close>

datatype 'a local_var = Unbound | Bound 'a

text \<open>
  The loop of \<open>import_normal\<close> has no \<open>break\<close>: every matching link assigns the name
  again, so the last one stays.
\<close>

fun normal_link_loop ::
    "nat option \<Rightarrow> link list \<Rightarrow> nat option local_var \<Rightarrow> nat option local_var" where
  "normal_link_loop pn [] v = v"
| "normal_link_loop pn (l # ls) v =
     (if Some (to_node l) = pn \<and> to_socket l = Named ''Normal''
      then normal_link_loop pn ls (Bound (Some (from_node l)))
      else normal_link_loop pn ls v)"

definition import_normal :: "host \<Rightarrow> material_processor \<Rightarrow> scene \<Rightarrow> error + scene" where
  "import_normal h mp s =
     (let (tex_image_node, s1) = import_texture h mp ''_nrm'' True s
      in case tex_image_node of
           Inl err \<Rightarrow> Inl err
         | Inr None \<Rightarrow> Inr s1
         | Inr (Some t) \<Rightarrow>
             (case normal_link_loop (principled_node mp) (links s1) Unbound of
                Unbound \<Rightarrow> Inl UnboundLocalError
              | Bound v \<Rightarrow>
                  (let (normal_map_node, s2) =
                         (case v of None \<Rightarrow> nodes_new NORMAL_MAP s1 | Some m \<Rightarrow> (m, s1));
                       s3 = links_new (t, Named ''Color'') (normal_map_node, Named ''Color'') s2
                   in case principled_node mp of
                        None \<Rightarrow> Inl AttributeError
                      | Some p \<Rightarrow>
                          Inr (links_new (normal_map_node, Named ''Normal'')
                                 (p, Named ''Normal'') s3))))"

section \<open>Secondary albedo\<close>

definition white :: sockval where
  "white = Colour 1 1 1 1"

definition place_white :: "nat \<Rightarrow> nat \<Rightarrow> real \<Rightarrow> scene \<Rightarrow> scene" where
  "place_white white_node p dx s =
     update_node white_node
       (\<lambda>n. n\<lparr>location := (fst (location (nodes s ! p)) + dx,
                            snd (location (nodes s ! p)) + 200)\<rparr>) s"

text \<open>The body of \<open>if tcl_node:\<close>; it gives back the white node, the mix node and the scene.\<close>

definition second_alb_tcl :: "nat \<Rightarrow> nat option \<Rightarrow> nat \<Rightarrow> scene \<Rightarrow> nat \<times> nat \<times> scene" where
  "second_alb_tcl p original_color_node tcl_node s =
     (let (mix_color_node, s1) = nodes_new MIX_RGB s;
          s2 = update_node mix_color_node (\<lambda>n. n\<lparr>blend_type := ''MIX''\<rparr>) s1;
          (white_node, s3) = nodes_new RGB s2;
          s4 = update_node white_node
                 (\<lambda>n. n\<lparr>output_default := set_default (Indexed 0) white (output_default n)\<rparr>) s3;
          s5 = place_white white_node p 0 s4;
          s6 = (case original_color_node of
                  None \<Rightarrow> s5
                | Some oc \<Rightarrow> links_new (oc, Named ''Color'') (mix_color_node, Indexed 1) s5);
          s7 = links_new (tcl_node, Named ''Color'') (mix_color_node, Indexed 0) s6;
          s8 = links_new (white_node, Indexed 0) (mix_color_node, Indexed 2) s7;
          s9 = links_new (mix_color_node, Named ''Color'') (p, Named ''Base Color'') s8
      in (white_node, mix_color_node, s9))"

text \<open>The body of \<open>if mai_node:\<close>; \<open>white_node\<close> is the white node of the first step, if any.\<close>

definition second_alb_mai ::
    "nat \<Rightarrow> nat option \<Rightarrow> nat option \<Rightarrow> nat \<Rightarrow> scene \<Rightarrow> scene" where
  "second_alb_mai p original_color_node white_node mai_node s =
     (let (multiply_node, s1) = nodes_new MIX_RGB s;
          s2 = update_node multiply_node (\<lambda>n. n\<lparr>blend_type := ''MULTIPLY''\<rparr>) s1;
          s3 = update_node multiply_node
                 (\<lambda>n. n\<lparr>input_default := set_default (Named ''Fac'') (Scalar 1) (input_default n)\<rparr>) s2;
          (w, s6) = (case white_node of
                       Some w \<Rightarrow> (w, s3)
                     | None \<Rightarrow>
                         (let (w, s4) = nodes_new RGB s3;
                              s5 = update_node w
                                     (\<lambda>n. n\<lparr>output_default :=
                                               set_default (Indexed 0) white (output_default n)\<rparr>) s4
                          in (w, place_white w p 200 s5)));
          s7 = (case original_color_node of
                  None \<Rightarrow> s6
                | Some oc \<Rightarrow> links_new (oc, Named ''Color'') (multiply_node, Indexed 1) s6);
          s8 = links_new (mai_node, Named ''Color'') (multiply_node, Indexed 0) s7;
          s9 = links_new (w, Indexed 0) (multiply_node, Indexed 2) s8
      in links_new (multiply_node, Named ''Color'') (p, Named ''Base Color'') s9)"

text \<open>
  The first statement reads \<open>self.principled_node.inputs\<close>, which raises
  \<open>AttributeError\<close> when the cached node is \<open>None\<close>.
\<close>

definition import_second_alb :: "host \<Rightarrow> material_processor \<Rightarrow> scene \<Rightarrow> error + scene" where
  "import_second_alb h mp s =
     (case principled_node mp of
        None \<Rightarrow> Inl AttributeError
      | Some p \<Rightarrow>
          (let original_color_node =
                 (case links_into s p (Named ''Base Color'') of
                    [] \<Rightarrow> None
                  | l # _ \<Rightarrow> Some (fst l));
               (tcl_node, s1) = import_texture h mp ''_tcl'' True s
           in case tcl_node of
                Inl err \<Rightarrow> Inl err
              | Inr tcl_node \<Rightarrow>
                  (let (white_node, original_color_node, s2) =
                         (case tcl_node of
                            None \<Rightarrow> (None, original_color_node, s1)
                          | Some tcl \<Rightarrow>
                              (let (w, m, s') = second_alb_tcl p original_color_node tcl s1
                               in (Some w, Some m, s')));
                       (mai_node, s3) = import_texture h mp ''_mai'' True s2
                   in case mai_node of
                        Inl err \<Rightarrow> Inl err
                      | Inr None \<Rightarrow> Inr s3
                      | Inr (Some mai) \<Rightarrow>
                          Inr (second_alb_mai p original_color_node white_node mai s3))))"

section \<open>Secondary shader\<close>

text \<open>
  The body of \<open>if trm_node:\<close>, in the blocks of the source. "Create and setup multiply
  mix node", "Create white color node", up to the line that reads the location of the
  principled node.
\<close>

definition shader_mix_white :: "scene \<Rightarrow> nat \<times> nat \<times> scene" where
  "shader_mix_white s =
     (let (mix_color_node, s1) = nodes_new MIX_RGB s;
          s2 = update_node mix_color_node (\<lambda>n. n\<lparr>blend_type := ''MULTIPLY''\<rparr>) s1;
          s3 = update_node mix_color_node
                 (\<lambda>n. n\<lparr>input_default := set_default (Named ''Fac'') (Scalar 1) (input_default n)\<rparr>) s2;
          (white_node, s4) = nodes_new RGB s3
      in (mix_color_node, white_node,
          update_node white_node
            (\<lambda>n. n\<lparr>output_default := set_default (Indexed 0) white (output_default n)\<rparr>) s4))"

text \<open>
  From that line on: the white node is placed, the mix node is wired and the translucent
  node is made.
\<close>

definition shader_translucent :: "nat \<Rightarrow> nat \<Rightarrow> nat \<Rightarrow> nat \<Rightarrow> scene \<Rightarrow> nat \<times> scene" where
  "shader_translucent p trm_node mix_color_node white_node s =
     (let s1 = place_white white_node p 100 s;
          s2 = links_new (trm_node, Named ''Color'') (mix_color_node, Indexed 1) s1;
          s3 = links_new (white_node, Indexed 0) (mix_color_node, Indexed 2) s2;
          (translucent_node, s4) = nodes_new BSDF_TRANSLUCENT s3
      in (translucent_node,
          links_new (mix_color_node, Named ''Color'') (translucent_node, Named ''Color'') s4))"

text \<open>
  "Connect normal if exists": the first link from a normal-map node into the \<open>Normal\<close>
  input of the principled node.
\<close>

definition shader_normal :: "nat \<Rightarrow> nat \<Rightarrow> scene \<Rightarrow> scene" where
  "shader_normal p translucent_node s =
     (let normal_map_node =
            map_option from_node
              (find (\<lambda>l. to_node l = p \<and> to_socket l = Named ''Normal'' \<and>
                          ntype (nodes s ! from_node l) = NORMAL_MAP) (links s))
      in case normal_map_node of
           None \<Rightarrow> s
         | Some nm \<Rightarrow> links_new (nm, Named ''Normal'') (translucent_node, Named ''Normal'') s)"

text \<open>"Create and setup mix shader", "Create and setup add shader".\<close>

definition shader_mix_add :: "nat \<Rightarrow> nat \<Rightarrow> scene \<Rightarrow> nat \<times> nat \<times> scene" where
  "shader_mix_add p translucent_node s =
     (let (mix_shader_node, s1) = nodes_new MIX_SHADER s;
          s2 = update_node mix_shader_node
                 (\<lambda>n. n\<lparr>input_default := set_default (Named ''Fac'') (Scalar 1) (input_default n)\<rparr>) s1;
          s3 = links_new (translucent_node, Named ''BSDF'') (mix_shader_node, Indexed 1) s2;
          (add_shader_node, s4) = nodes_new ADD_SHADER s3;
          s5 = links_new (p, Named ''BSDF'') (add_shader_node, Indexed 0) s4
      in (mix_shader_node, add_shader_node,
          links_new (mix_shader_node, Named ''Shader'') (add_shader_node, Indexed 1) s5))"

text \<open>"Connect to material output".\<close>

definition shader_output :: "nat \<Rightarrow> scene \<Rightarrow> scene" where
  "shader_output add_shader_node s =
     (let (output_node, s1) =
            (case first_of_type OUTPUT_MATERIAL 0 (nodes s) of
               Some out \<Rightarrow> (out, s)
             | None \<Rightarrow> nodes_new OUTPUT_MATERIAL s)
      in links_new (add_shader_node, Named ''Shader'') (output_node, Named ''Surface'') s1)"

definition second_shader_build ::
    "nat \<Rightarrow> nat \<Rightarrow> nat option \<Rightarrow> nat \<Rightarrow> nat \<Rightarrow> scene \<Rightarrow> scene" where
  "second_shader_build p trm_node thc_node mix_color_node white_node s =
     (let (translucent_node, s1) = shader_translucent p trm_node mix_color_node white_node s;
          s2 = shader_normal p translucent_node s1;
          (mix_shader_node, add_shader_node, s3) = shader_mix_add p translucent_node s2;
          s4 = shader_output add_shader_node s3
      in case thc_node of
           None \<Rightarrow> s4
         | Some thc \<Rightarrow> links_new (thc, Named ''Color'') (mix_shader_node, Named ''Fac'') s4)"

text \<open>
  \<open>import_second_shader\<close>: both textures are imported before \<open>trm_node\<close> is looked at.
  Reading \<open>self.principled_node.location\<close> raises \<open>AttributeError\<close> when the cached node
  is \<open>None\<close>.
\<close>

definition import_second_shader :: "host \<Rightarrow> material_processor \<Rightarrow> scene \<Rightarrow> error + scene" where
  "import_second_shader h mp s =
     (let (trm_node, s1) = import_texture h mp ''_trm'' False s
      in case trm_node of
           Inl err \<Rightarrow> Inl err
         | Inr trm_node \<Rightarrow>
             (let (thc_node, s2) = import_texture h mp ''_thc'' True s1
              in case thc_node of
                   Inl err \<Rightarrow> Inl err
                 | Inr thc_node \<Rightarrow>
                     (case trm_node of
                        None \<Rightarrow> Inr s2
                      | Some trm \<Rightarrow>
                          (let (mix_color_node, white_node, s3) = shader_mix_white s2
                           in case principled_node mp of
                                None \<Rightarrow> Inl AttributeError
                              | Some p \<Rightarrow>
                                  Inr (second_shader_build p trm thc_node mix_color_node
                                         white_node s3)))))"

section \<open>Emission\<close>

text \<open>The comparisons \<open>a == b\<close> and \<open>a != b\<close> of two pixel components.\<close>

fun equals :: "pixval \<Rightarrow> pixval \<Rightarrow> bool" where
  "equals (Fin x) (Fin y) = (x = y)"
| "equals a b = False"

definition differs :: "pixval \<Rightarrow> pixval \<Rightarrow> bool" where
  "differs a b = (\<not> equals a b)"

text \<open>
  The loop \<open>for i in range(0, len(pixels), 4)\<close>, from index \<open>i\<close> on. Reading
  \<open>pixels[i + 1]\<close> or \<open>pixels[i + 2]\<close> past the end raises \<open>IndexError\<close>.
\<close>

function grayscale_loop :: "pixval list \<Rightarrow> nat \<Rightarrow> error + bool" where
  "grayscale_loop px i =
     (if length px \<le> i then Inr True
      else if length px \<le> i + 2 then Inl IndexError
      else (let r = px ! i; g = px ! (i + 1); b = px ! (i + 2)
            in if differs r g \<or> differs g b \<or> differs b r then Inr False
               else grayscale_loop px (i + 4)))"
  by pat_completeness auto
termination
  by (relation "measure (\<lambda>(px, i). length px - i)") auto

definition is_grayscale_image :: "bpy_image \<Rightarrow> error + bool" where
  "is_grayscale_image img = grayscale_loop (pixels img) 0"

text \<open>
  The search of \<open>import_emission\<close>: the first link into the \<open>Emission Color\<close> input of
  the principled node that comes from an image-texture node.
\<close>

definition find_emission_link :: "nat \<Rightarrow> scene \<Rightarrow> nat option" where
  "find_emission_link p s =
     map_option from_node
       (find (\<lambda>l. to_node l = p \<and> to_socket l = Named ''Emission Color'' \<and>
                   ntype (nodes s ! from_node l) = TEX_IMAGE) (links s))"

text \<open>
  The emission node after the search and the two \<open>if not emission_node\<close> steps, or the
  error of an import that raised.
\<close>

definition emission_source ::
    "host \<Rightarrow> material_processor \<Rightarrow> nat \<Rightarrow> scene \<Rightarrow> (error + nat option) \<times> scene" where
  "emission_source h mp p s =
     (let (emission_node, s1) =
            (case find_emission_link p s of
               Some e \<Rightarrow> (Inr (Some e), s)
             | None \<Rightarrow> import_texture h mp ''_emm'' False s)
      in case emission_node of
           Inl err \<Rightarrow> (Inl err, s1)
         | Inr (Some e) \<Rightarrow> (Inr (Some e), s1)
         | Inr None \<Rightarrow> import_texture h mp ''_emi'' False s1)"

text \<open>The body of \<open>if emission_node and emission_node.image:\<close> after the grayscale test.\<close>

definition emission_build :: "nat \<Rightarrow> nat \<Rightarrow> scene \<Rightarrow> scene" where
  "emission_build p emission_node s =
     (let (mix_node, s1) = nodes_new MIX_RGB s;
          s2 = update_node mix_node (\<lambda>n. n\<lparr>blend_type := ''MULTIPLY''\<rparr>) s1;
          s3 = update_node mix_node
                 (\<lambda>n. n\<lparr>input_default := set_default (Named ''Fac'') (Scalar 1) (input_default n)\<rparr>) s2;
          s4 = (case links_into s3 p (Named ''Base Color'') of
                  [] \<Rightarrow> s3
                | l # _ \<Rightarrow> links_new (fst l, Named ''Color'') (mix_node, Indexed 1) s3);
          s5 = links_new (emission_node, Named ''Color'') (mix_node, Indexed 2) s4
      in links_new (mix_node, Named ''Color'') (p, Named ''Emission Color'') s5)"

definition import_emission :: "host \<Rightarrow> material_processor \<Rightarrow> scene \<Rightarrow> error + scene" where
  "import_emission h mp s =
     (case principled_node mp of
        None \<Rightarrow> Inr s
      | Some p \<Rightarrow>
          (let (emission_node, s1) = emission_source h mp p s
           in case emission_node of
                Inl err \<Rightarrow> Inl err
              | Inr None \<Rightarrow> Inr s1
              | Inr (Some e) \<Rightarrow>
                  (case image (nodes s1 ! e) of
                     None \<Rightarrow> Inr s1
                   | Some i \<Rightarrow>
                       (case is_grayscale_image (images s1 ! i) of
                          Inl err \<Rightarrow> Inl err
                        | Inr gray \<Rightarrow>
                            (let s2 = (if gray then set_colorspace i ''Non-Color'' s1 else s1)
                             in Inr (emission_build p e s2))))))"

section \<open>Notions used by the properties\<close>

text \<open>
  The pattern occurs somewhere in the string, letters compared without case: the
  string "contains" the pattern "in any letter case".
\<close>

definition contains_ci :: "string \<Rightarrow> string \<Rightarrow> bool" where
  "contains_ci pat s = list_ex (\<lambda>k. match_at pat (drop k s)) [0..<Suc (length s)]"

text \<open>
  The node is an image-texture node with an image whose file name contains one of the
  three suffixes.
\<close>

definition names_suffix :: "host \<Rightarrow> scene \<Rightarrow> node \<Rightarrow> bool" where
  "names_suffix h s n =
     (ntype n = TEX_IMAGE \<and>
      (case image n of
         None \<Rightarrow> False
       | Some i \<Rightarrow> list_ex (\<lambda>sfx. contains_ci sfx (image_filename h (images s ! i))) suffixes))"

text \<open>
  The image that a successful import puts into the registry, from the path and from what
  the host decoded, and the scene after the import: one more image-texture node, holding
  one more image.
\<close>

definition loaded_image :: "string \<Rightarrow> string \<times> pixval list \<Rightarrow> bool \<Rightarrow> bpy_image" where
  "loaded_image path d non_color =
     \<lparr> filepath = path,
       colorspace = (if non_color then ''Non-Color'' else fst d),
       pixels = snd d \<rparr>"

definition texture_added :: "string \<Rightarrow> string \<times> pixval list \<Rightarrow> bool \<Rightarrow> scene \<Rightarrow> scene" where
  "texture_added path d non_color s =
     s\<lparr> nodes := nodes s @ [(new_node TEX_IMAGE)\<lparr>image := Some (length (images s))\<rparr>],
        images := images s @ [loaded_image path d non_color] \<rparr>"

text \<open>The scene after an import whose load raised: one more image-texture node, without an image.\<close>

definition node_left :: "scene \<Rightarrow> scene" where
  "node_left s = s\<lparr> nodes := nodes s @ [new_node TEX_IMAGE] \<rparr>"

text \<open>
  The pixel that starts at index \<open>j\<close> of the buffer has its three colour components,
  and they are equal: \<open>R == G == B\<close>.
\<close>

definition gray_at :: "pixval list \<Rightarrow> nat \<Rightarrow> bool" where
  "gray_at px j =
     (j + 2 < length px \<and> equals (px ! j) (px ! (j + 1)) \<and> equals (px ! (j + 1)) (px ! (j + 2)))"

text \<open>Every pixel that the loop samples, at the indices 0, 4, 8 and so on, is gray.\<close>

definition every_pixel_gray :: "pixval list \<Rightarrow> bool" where
  "every_pixel_gray px =
     list_all (\<lambda>k. 4 * k < length px \<longrightarrow> gray_at px (4 * k)) [0..<length px]"

section \<open>Example scenes\<close>

text \<open>
  A host whose directory \<open>/tex\<close> holds the given files; every file decodes to one white
  pixel. In \<open>unreadable_host\<close> the files are listed and none of them can be read as an
  image.
\<close>

definition white_pixel :: "string \<times> pixval list" where
  "white_pixel = (''sRGB'', [Fin 1, Fin 1, Fin 1, Fin 1])"

definition example_host :: "string list \<Rightarrow> host" where
  "example_host files =
     \<lparr> listdir = (\<lambda>d. if d = ''/tex'' then Some files else None),
       decode = (\<lambda>p. Some white_pixel),
       blend_dir = ''/proj'' \<rparr>"

definition unreadable_host :: "string list \<Rightarrow> host" where
  "unreadable_host files =
     \<lparr> listdir = (\<lambda>d. if d = ''/tex'' then Some files else None),
       decode = (\<lambda>p. None),
       blend_dir = ''/proj'' \<rparr>"

definition color_link :: "nat \<Rightarrow> nat \<Rightarrow> string \<Rightarrow> link" where
  "color_link a b input_name =
     \<lparr> from_node = a, from_socket = Named ''Color'', to_node = b, to_socket = Named input_name \<rparr>"

text \<open>
  The material \<open>Char.001\<close>: a principled node, and an image-texture node for
  \<open>Char_Alb.png\<close> that drives its base colour.
\<close>

definition char_scene :: scene where
  "char_scene =
     \<lparr> material_name = ''Char.001'',
       nodes = [new_node BSDF_PRINCIPLED, (new_node TEX_IMAGE)\<lparr>image := Some 0\<rparr>],
       links = [color_link 1 0 ''Base Color''],
       images = [\<lparr> filepath = ''//tex/Char_Alb.png'', colorspace = ''sRGB'', pixels = [] \<rparr>] \<rparr>"

definition char_processor :: material_processor where
  "char_processor = \<lparr> file_path = ''/tex'', base_name = ''Char'', principled_node = Some 0 \<rparr>"

text \<open>A material with two image textures, \<open>foo_emm.png\<close> before \<open>bar_alb.png\<close>.\<close>

definition two_texture_scene :: scene where
  "two_texture_scene =
     \<lparr> material_name = ''Mat'',
       nodes = [(new_node TEX_IMAGE)\<lparr>image := Some 0\<rparr>, (new_node TEX_IMAGE)\<lparr>image := Some 1\<rparr>],
       links = [],
       images = [\<lparr> filepath = ''/tex/foo_emm.png'', colorspace = ''sRGB'', pixels = [] \<rparr>,
                 \<lparr> filepath = ''/tex/bar_alb.png'', colorspace = ''sRGB'', pixels = [] \<rparr>] \<rparr>"

text \<open>A material whose graph has an image texture and no principled node.\<close>

definition bare_scene :: scene where
  "bare_scene =
     \<lparr> material_name = ''Char'',
       nodes = [(new_node TEX_IMAGE)\<lparr>image := Some 0\<rparr>],
       links = [],
       images = [\<lparr> filepath = ''/tex/Char_alb.png'', colorspace = ''sRGB'', pixels = [] \<rparr>] \<rparr>"

definition bare_processor :: material_processor where
  "bare_processor = \<lparr> file_path = ''/tex'', base_name = ''Char'', principled_node = None \<rparr>"

text \<open>A material \<open>Body.001\<close> with a principled node and no texture.\<close>

definition plain_scene :: scene where
  "plain_scene =
     \<lparr> material_name = ''Body.001'', nodes = [new_node BSDF_PRINCIPLED], links = [],
       images = [] \<rparr>"

text \<open>
  A material whose principled node takes its emission colour from an image texture: in
  \<open>gray_emission_scene\<close> the image has two gray pixels, in \<open>empty_emission_scene\<close> the
  texture node has no image.
\<close>

definition gray_emission_scene :: scene where
  "gray_emission_scene =
     \<lparr> material_name = ''Lamp'',
       nodes = [new_node BSDF_PRINCIPLED, (new_node TEX_IMAGE)\<lparr>image := Some 0\<rparr>],
       links = [color_link 1 0 ''Emission Color''],
       images = [\<lparr> filepath = ''/tex/Lamp_glow.png'', colorspace = ''sRGB'',
                   pixels = [Fin 0, Fin 0, Fin 0, Fin 1, Fin 1, Fin 1, Fin 1, Fin 0] \<rparr>] \<rparr>"

definition lamp_processor :: material_processor where
  "lamp_processor = \<lparr> file_path = ''/tex'', base_name = ''Lamp'', principled_node = Some 0 \<rparr>"

definition empty_emission_scene :: scene where
  "empty_emission_scene =
     \<lparr> material_name = ''Lamp'',
       nodes = [new_node BSDF_PRINCIPLED, new_node TEX_IMAGE],
       links = [color_link 1 0 ''Emission Color''],
       images = [] \<rparr>"

section \<open>Auxiliary facts\<close>

declare grayscale_loop.simps [simp del]

lemma search_Some_iff:
  "search pat s = Some k \<longleftrightarrow>
     k \<le> length s \<and> match_at pat (drop k s) \<and> (\<forall>j<k. \<not> match_at pat (drop j s))"
proof (induction s arbitrary: k)
  case Nil
  then show ?case by (auto simp: match_at_def lower_def)
next
  case (Cons c cs)
  show ?case
  proof (cases "match_at pat (c # cs)")
    case True
    then show ?thesis by (cases k) auto
  next
    case False
    show ?thesis
    proof (cases k)
      case 0
      with False show ?thesis by simp
    next
      case (Suc k')
      with False Cons.IH [of k'] show ?thesis
        by (auto simp: less_Suc_eq_0_disj)
    qed
  qed
qed

lemma contains_ci_iff: "contains_ci pat s \<longleftrightarrow> (\<exists>k\<le>length s. match_at pat (drop k s))"
proof -
  have "set [0..<Suc (length s)] = {k. k \<le> length s}" by auto
  then show ?thesis by (simp only: contains_ci_def list_ex_iff) blast
qed

lemma contains_ci_Cons:
  "contains_ci pat (c # cs) \<longleftrightarrow> match_at pat (c # cs) \<or> contains_ci pat cs"
proof
  assume "contains_ci pat (c # cs)"
  then obtain k where k: "k \<le> Suc (length cs)" "match_at pat (drop k (c # cs))"
    by (auto simp: contains_ci_iff)
  show "match_at pat (c # cs) \<or> contains_ci pat cs"
  proof (cases k)
    case 0
    with k show ?thesis by simp
  next
    case (Suc k')
    with k have "k' \<le> length cs \<and> match_at pat (drop k' cs)" by simp
    then show ?thesis by (auto simp: contains_ci_iff)
  qed
next
  assume "match_at pat (c # cs) \<or> contains_ci pat cs"
  then show "contains_ci pat (c # cs)"
  proof
    assume "match_at pat (c # cs)"
    then have "0 \<le> length (c # cs) \<and> match_at pat (drop 0 (c # cs))" by simp
    then show ?thesis unfolding contains_ci_iff by blast
  next
    assume "contains_ci pat cs"
    then obtain k where "k \<le> length cs" "match_at pat (drop k cs)"
      by (auto simp: contains_ci_iff)
    then have "Suc k \<le> length (c # cs) \<and> match_at pat (drop (Suc k) (c # cs))" by simp
    then show ?thesis unfolding contains_ci_iff by blast
  qed
qed

lemma search_None_iff: "search pat s = None \<longleftrightarrow> \<not> contains_ci pat s"
proof (induction s)
  case Nil
  show ?case by (simp add: contains_ci_def match_at_def lower_def)
next
  case (Cons c cs)
  then show ?case by (simp add: contains_ci_Cons)
qed

lemma match_suffixes_None_iff:
  "match_suffixes ps b = None \<longleftrightarrow> (\<forall>p\<in>set ps. \<not> contains_ci p b)"
proof (induction ps)
  case Nil
  show ?case by simp
next
  case (Cons p ps)
  show ?case
  proof (cases "search p b")
    case None
    then have "\<not> contains_ci p b" using search_None_iff [of p b] by simp
    with None Cons show ?thesis by simp
  next
    case (Some k)
    then have "contains_ci p b" using search_None_iff [of p b] by simp
    with Some show ?thesis by auto
  qed
qed

lemma loop_skips:
  "\<forall>m\<in>set pre. \<not> names_suffix h s m \<Longrightarrow>
   find_base_texture_loop h (images s) (pre @ rest) = find_base_texture_loop h (images s) rest"
proof (induction pre)
  case Nil
  show ?case by simp
next
  case (Cons m pre)
  then have "\<not> names_suffix h s m" by simp
  then have "(if ntype m = TEX_IMAGE then image m else None) = None \<or>
    (\<exists>i. (if ntype m = TEX_IMAGE then image m else None) = Some i \<and>
          match_suffixes suffixes (image_filename h (images s ! i)) = None)"
    by (auto simp: names_suffix_def match_suffixes_None_iff list_ex_iff split: option.splits)
  with Cons show ?case by auto
qed

lemma base_texture_None:
  "\<forall>m\<in>set (nodes s). \<not> names_suffix h s m \<Longrightarrow> find_base_texture h s = None"
  using loop_skips [of "nodes s" h s "[]"] by (simp add: find_base_texture_def)

lemma path_join_nonempty: "f \<noteq> [] \<Longrightarrow> path_join d f \<noteq> []"
  by (simp add: path_join_def)

lemma lower_eq_nonempty: "lower f = lower (b @ sfx @ ''.png'') \<Longrightarrow> f \<noteq> []"
  by (auto simp: lower_def)

lemma find_texture_file_Some:
  assumes "listdir h d = Some files"
    and "find (\<lambda>f. lower f = lower (b @ sfx @ ''.png'')) files = Some file"
  shows "find_texture_file h d b sfx = Some (path_join d file)"
  using assms by (simp add: find_texture_file_def)

lemma find_texture_file_None_iff:
  "find_texture_file h d b sfx = None \<longleftrightarrow>
     (listdir h d = None \<or>
      (\<exists>files. listdir h d = Some files \<and>
         (\<forall>f\<in>set files. lower f \<noteq> lower (b @ sfx @ ''.png''))))"
proof (cases "listdir h d")
  case None
  then show ?thesis by (simp add: find_texture_file_def)
next
  case (Some files)
  show ?thesis
  proof (cases "find (\<lambda>f. lower f = lower (b @ sfx @ ''.png'')) files")
    case None
    then have "\<forall>f\<in>set files. lower f \<noteq> lower (b @ sfx @ ''.png'')"
      by (simp add: find_None_iff)
    moreover have "find_texture_file h d b sfx = None"
      using Some None by (simp add: find_texture_file_def)
    ultimately show ?thesis using Some by simp
  next
    case (Some fname)
    then have "fname \<in> set files \<and> lower fname = lower (b @ sfx @ ''.png'')"
      by (auto simp: find_Some_iff)
    moreover have "find_texture_file h d b sfx \<noteq> None"
      using \<open>listdir h d = Some files\<close> Some by (simp add: find_texture_file_def)
    ultimately show ?thesis using \<open>listdir h d = Some files\<close> by auto
  qed
qed

lemma find_texture_file_nonempty:
  assumes "find_texture_file h d b sfx = Some p"
  shows "p \<noteq> []"
proof -
  from assms obtain files fname where
    f: "find (\<lambda>f. lower f = lower (b @ sfx @ ''.png'')) files = Some fname" and p: "p = path_join d fname"
    by (auto simp: find_texture_file_def split: option.splits)
  from f have "lower fname = lower (b @ sfx @ ''.png'')"
    by (auto simp: find_Some_iff)
  then have "fname \<noteq> []" by (rule lower_eq_nonempty)
  with p show ?thesis by (simp add: path_join_nonempty)
qed

lemma import_texture_found:
  assumes "find_texture_file h (file_path mp) (base_name mp) sfx = Some p"
    and "decode h p = Some d"
  shows "import_texture h mp sfx nc s = (Inr (Some (length (nodes s))), texture_added p d nc s)"
proof -
  have "p \<noteq> []" using assms(1) by (rule find_texture_file_nonempty)
  with assms show ?thesis
    by (simp add: import_texture_def nodes_new_def images_load_def update_node_def
        set_colorspace_def texture_added_def loaded_image_def)
qed

lemma import_texture_unreadable:
  assumes "find_texture_file h (file_path mp) (base_name mp) sfx = Some p"
    and "decode h p = None"
  shows "import_texture h mp sfx nc s = (Inl RuntimeError, node_left s)"
proof -
  have "p \<noteq> []" using assms(1) by (rule find_texture_file_nonempty)
  with assms show ?thesis
    by (simp add: import_texture_def nodes_new_def images_load_def node_left_def)
qed

lemma import_texture_missing:
  assumes "find_texture_file h (file_path mp) (base_name mp) sfx = None"
  shows "import_texture h mp sfx nc s = (Inr None, s)"
  using assms by (simp add: import_texture_def)

lemma equals_chain: "equals r g \<Longrightarrow> equals g b \<Longrightarrow> equals b r"
  by (cases r; cases g; cases b) auto

lemma all_nat_split: "(\<forall>k::nat. P k) \<longleftrightarrow> P 0 \<and> (\<forall>k. P (Suc k))"
  by (metis not0_implies_Suc)

lemma grayscale_loop_True_iff:
  "grayscale_loop px i = Inr True \<longleftrightarrow> (\<forall>k. i + 4 * k < length px \<longrightarrow> gray_at px (i + 4 * k))"
proof (induction px i rule: grayscale_loop.induct)
  case (1 px i)
  show ?case
  proof (cases "length px \<le> i")
    case True
    then show ?thesis by (subst grayscale_loop.simps) simp
  next
    case False
    note inside = this
    show ?thesis
    proof (cases "length px \<le> i + 2")
      case True
      with inside have "grayscale_loop px i = Inl IndexError"
        by (subst grayscale_loop.simps) simp
      moreover have "\<not> (i + 4 * 0 < length px \<longrightarrow> gray_at px (i + 4 * 0))"
        using True inside by (simp add: gray_at_def)
      ultimately show ?thesis by (metis sum.distinct(1))
    next
      case False
      note room = this
      show ?thesis
      proof (cases "differs (px ! i) (px ! (i + 1)) \<or> differs (px ! (i + 1)) (px ! (i + 2)) \<or>
                    differs (px ! (i + 2)) (px ! i)")
        case True
        with inside room have "grayscale_loop px i = Inr False"
          by (subst grayscale_loop.simps) (simp add: Let_def)
        moreover have "\<not> gray_at px i"
          using True equals_chain [of "px ! i" "px ! (i + 1)" "px ! (i + 2)"]
          by (auto simp: gray_at_def differs_def)
        then have "\<not> (i + 4 * 0 < length px \<longrightarrow> gray_at px (i + 4 * 0))"
          using inside by simp
        ultimately show ?thesis by (metis Inr_inject)
      next
        case False
        with inside room have step: "grayscale_loop px i = grayscale_loop px (i + 4)"
          by (subst grayscale_loop.simps) (simp add: Let_def)
        have here: "gray_at px i"
          using False room by (simp add: gray_at_def differs_def)
        have "grayscale_loop px (i + 4) = Inr True \<longleftrightarrow>
              (\<forall>k. i + 4 + 4 * k < length px \<longrightarrow> gray_at px (i + 4 + 4 * k))"
          using "1.IH" [OF inside room refl refl refl] False by simp
        also have "\<dots> \<longleftrightarrow> (\<forall>k. i + 4 * Suc k < length px \<longrightarrow> gray_at px (i + 4 * Suc k))"
          by (simp add: add.assoc)
        also have "\<dots> \<longleftrightarrow> (\<forall>k. i + 4 * k < length px \<longrightarrow> gray_at px (i + 4 * k))"
          using here by (subst (2) all_nat_split) simp
        finally show ?thesis using step by simp
      qed
    qed
  qed
qed

lemma is_grayscale_image_iff:
  "is_grayscale_image img = Inr True \<longleftrightarrow>
     (\<forall>k. 4 * k < length (pixels img) \<longrightarrow> gray_at (pixels img) (4 * k))"
  using grayscale_loop_True_iff [of "pixels img" 0] by (simp add: is_grayscale_image_def)

lemma links_new_fields [simp]:
  "nodes (links_new a b s) = nodes s"
  "images (links_new a b s) = images s"
  "material_name (links_new a b s) = material_name s"
  by (simp_all add: links_new_def)

lemma update_node_fields [simp]:
  "links (update_node n f s) = links s"
  "images (update_node n f s) = images s"
  "material_name (update_node n f s) = material_name s"
  "nodes (update_node n f s) = (nodes s)[n := f (nodes s ! n)]"
  by (simp_all add: update_node_def)

lemma emission_build_images [simp]: "images (emission_build p e s) = images s"
  by (simp add: emission_build_def nodes_new_def Let_def split: list.splits)

lemma filter_removed_all:
  "(\<And>l. P l \<Longrightarrow> Q l) \<Longrightarrow> filter P (filter (\<lambda>l. \<not> Q l) ls) = []"
  by (induction ls) auto

lemma filter_removed_none:
  "(\<And>l. P l \<Longrightarrow> \<not> Q l) \<Longrightarrow> filter P (filter (\<lambda>l. \<not> Q l) ls) = filter P ls"
  by (induction ls) auto

lemma links_into_links_new:
  "links_into (links_new a (n, k) s) n' k' =
     (if n' = n \<and> k' = k then [a] else links_into s n' k')"
proof (cases "n' = n \<and> k' = k")
  case True
  then show ?thesis
    using filter_removed_all [of "\<lambda>l. to_node l = n \<and> to_socket l = k"
        "\<lambda>l. to_node l = n \<and> to_socket l = k" "links s"]
    by (simp add: links_into_def links_new_def)
next
  case False
  then have "filter (\<lambda>l. to_node l = n' \<and> to_socket l = k')
               (filter (\<lambda>l. \<not> (to_node l = n \<and> to_socket l = k)) (links s)) =
             filter (\<lambda>l. to_node l = n' \<and> to_socket l = k') (links s)"
    by (intro filter_removed_none) auto
  with False show ?thesis
    by (auto simp: links_into_def links_new_def)
qed

lemma links_into_update_node [simp]: "links_into (update_node n f s) = links_into s"
  by (simp add: links_into_def fun_eq_iff)

lemma links_into_nodes_update [simp]: "links_into (s\<lparr>nodes := ns\<rparr>) = links_into s"
  by (simp add: links_into_def fun_eq_iff)

lemma first_of_type_Some:
  "first_of_type ty k ns = Some r \<Longrightarrow> \<exists>j<length ns. r = k + j \<and> ntype (ns ! j) = ty"
proof (induction ns arbitrary: k)
  case Nil
  then show ?case by simp
next
  case (Cons n ns)
  show ?case
  proof (cases "ntype n = ty")
    case True
    with Cons.prems show ?thesis by auto
  next
    case False
    with Cons.prems have "first_of_type ty (Suc k) ns = Some r" by simp
    from Cons.IH [OF this] obtain j where "j < length ns" "r = Suc k + j" "ntype (ns ! j) = ty"
      by blast
    then have "Suc j < length (n # ns) \<and> r = k + Suc j \<and> ntype ((n # ns) ! Suc j) = ty"
      by simp
    then show ?thesis by blast
  qed
qed

lemma shader_translucent_result:
  "fst (shader_translucent p trm mix wh s) = length (nodes s) \<and>
   images (snd (shader_translucent p trm mix wh s)) = images s \<and>
   length (nodes (snd (shader_translucent p trm mix wh s))) = Suc (length (nodes s)) \<and>
   (\<forall>j<length (nodes s). j \<noteq> wh \<longrightarrow>
      nodes (snd (shader_translucent p trm mix wh s)) ! j = nodes s ! j)"
  by (simp add: shader_translucent_def Let_def nodes_new_def place_white_def nth_append)

lemma shader_normal_result:
  "nodes (shader_normal p tr s) = nodes s \<and> images (shader_normal p tr s) = images s"
  by (simp add: shader_normal_def Let_def split: option.splits)

lemma shader_mix_add_result:
  "fst (shader_mix_add p tr s) = length (nodes s) \<and>
   fst (snd (shader_mix_add p tr s)) = Suc (length (nodes s)) \<and>
   images (snd (snd (shader_mix_add p tr s))) = images s \<and>
   nodes (snd (snd (shader_mix_add p tr s))) =
     nodes s @ [(new_node MIX_SHADER)\<lparr>input_default := [(Named ''Fac'', Scalar 1)]\<rparr>,
                new_node ADD_SHADER]"
  by (simp add: shader_mix_add_def Let_def nodes_new_def set_default_def new_node_def)

lemma shader_mix_add_links:
  "links_into (snd (snd (shader_mix_add p tr s))) n k =
     (if n = Suc (length (nodes s)) \<and> k = Indexed 1 then [(length (nodes s), Named ''Shader'')]
      else if n = Suc (length (nodes s)) \<and> k = Indexed 0 then [(p, Named ''BSDF'')]
      else if n = length (nodes s) \<and> k = Indexed 1 then [(tr, Named ''BSDF'')]
      else links_into s n k)"
  by (simp add: shader_mix_add_def Let_def nodes_new_def links_into_links_new)

lemma shader_output_result:
  "\<exists>out<length (nodes (shader_output a s)).
     ntype (nodes (shader_output a s) ! out) = OUTPUT_MATERIAL \<and>
     (\<forall>n k. links_into (shader_output a s) n k =
        (if n = out \<and> k = Named ''Surface'' then [(a, Named ''Shader'')] else links_into s n k)) \<and>
     (\<forall>j<length (nodes s). nodes (shader_output a s) ! j = nodes s ! j) \<and>
     images (shader_output a s) = images s"
proof (cases "first_of_type OUTPUT_MATERIAL 0 (nodes s)")
  case None
  then have "length (nodes s) < length (nodes (shader_output a s)) \<and>
     ntype (nodes (shader_output a s) ! length (nodes s)) = OUTPUT_MATERIAL \<and>
     (\<forall>n k. links_into (shader_output a s) n k =
        (if n = length (nodes s) \<and> k = Named ''Surface'' then [(a, Named ''Shader'')]
         else links_into s n k)) \<and>
     (\<forall>j<length (nodes s). nodes (shader_output a s) ! j = nodes s ! j) \<and>
     images (shader_output a s) = images s"
    by (simp add: shader_output_def nodes_new_def links_into_links_new new_node_def nth_append)
  then show ?thesis by blast
next
  case (Some out)
  from first_of_type_Some [OF this] have "out < length (nodes s)" "ntype (nodes s ! out) = OUTPUT_MATERIAL"
    by auto
  with Some have "out < length (nodes (shader_output a s)) \<and>
     ntype (nodes (shader_output a s) ! out) = OUTPUT_MATERIAL \<and>
     (\<forall>n k. links_into (shader_output a s) n k =
        (if n = out \<and> k = Named ''Surface'' then [(a, Named ''Shader'')]
         else links_into s n k)) \<and>
     (\<forall>j<length (nodes s). nodes (shader_output a s) ! j = nodes s ! j) \<and>
     images (shader_output a s) = images s"
    by (simp add: shader_output_def links_into_links_new)
  then show ?thesis by blast
qed

lemma second_shader_build_wiring:
  assumes n: "n = length (nodes s)"
    and s': "s' = second_shader_build p trm (Some thc) mix wh s"
  shows "\<exists>out<length (nodes s').
           ntype (nodes s' ! out) = OUTPUT_MATERIAL \<and>
           links_into s' out (Named ''Surface'') = [(n + 2, Named ''Shader'')] \<and>
           ntype (nodes s' ! (n + 2)) = ADD_SHADER \<and>
           links_into s' (n + 2) (Indexed 0) = [(p, Named ''BSDF'')] \<and>
           links_into s' (n + 2) (Indexed 1) = [(n + 1, Named ''Shader'')] \<and>
           ntype (nodes s' ! (n + 1)) = MIX_SHADER \<and>
           links_into s' (n + 1) (Named ''Fac'') = [(thc, Named ''Color'')] \<and>
           images s' = images s \<and>
           (\<forall>j<n. j \<noteq> wh \<longrightarrow> nodes s' ! j = nodes s ! j)"
proof -
  obtain tr sA where A: "shader_translucent p trm mix wh s = (tr, sA)"
    by (cases "shader_translucent p trm mix wh s")
  define sB where "sB = shader_normal p tr sA"
  obtain ms ad sC where C: "shader_mix_add p tr sB = (ms, ad, sC)"
    by (cases "shader_mix_add p tr sB") auto
  define sD where "sD = shader_output ad sC"
  have build: "s' = links_new (thc, Named ''Color'') (ms, Named ''Fac'') sD"
    by (simp add: s' second_shader_build_def A C [unfolded sB_def] sB_def sD_def)
  from shader_translucent_result [of p trm mix wh s] A n
  have a: "images sA = images s" "length (nodes sA) = Suc n"
    "\<forall>j<n. j \<noteq> wh \<longrightarrow> nodes sA ! j = nodes s ! j"
    by simp_all
  from shader_normal_result [of p tr sA]
  have b: "nodes sB = nodes sA" "images sB = images sA"
    by (simp_all add: sB_def)
  from shader_mix_add_result [of p tr sB] C a b
  have c: "ms = n + 1" "ad = n + 2" "images sC = images s"
    "nodes sC = nodes sA @ [(new_node MIX_SHADER)\<lparr>input_default := [(Named ''Fac'', Scalar 1)]\<rparr>,
                new_node ADD_SHADER]"
    by simp_all
  from shader_mix_add_links [of p tr sB] C a b
  have cl: "links_into sC (n + 2) (Indexed 0) = [(p, Named ''BSDF'')]"
    "links_into sC (n + 2) (Indexed 1) = [(n + 1, Named ''Shader'')]"
    by simp_all
  from shader_output_result [of ad sC] obtain out where
    d: "out < length (nodes sD)" "ntype (nodes sD ! out) = OUTPUT_MATERIAL"
      "\<And>m k. links_into sD m k =
        (if m = out \<and> k = Named ''Surface'' then [(ad, Named ''Shader'')] else links_into sC m k)"
      "\<And>j. j < length (nodes sC) \<Longrightarrow> nodes sD ! j = nodes sC ! j"
      "images sD = images sC"
    unfolding sD_def by blast
  have len: "length (nodes sC) = n + 3"
    using c a by simp
  have 1: "out < length (nodes s')" "ntype (nodes s' ! out) = OUTPUT_MATERIAL"
    using d by (simp_all add: build)
  have 2: "links_into s' out (Named ''Surface'') = [(n + 2, Named ''Shader'')]"
    using d(3) c by (simp add: build links_into_links_new)
  have 3: "ntype (nodes s' ! (n + 2)) = ADD_SHADER" "ntype (nodes s' ! (n + 1)) = MIX_SHADER"
    using d(4) [of "n + 2"] d(4) [of "n + 1"] len c(4) a(2)
    by (simp_all add: build nth_append new_node_def)
  have 4: "links_into s' (n + 2) (Indexed 0) = [(p, Named ''BSDF'')]"
    "links_into s' (n + 2) (Indexed 1) = [(n + 1, Named ''Shader'')]"
    using d(3) cl c by (simp_all add: build links_into_links_new)
  have 5: "links_into s' (n + 1) (Named ''Fac'') = [(thc, Named ''Color'')]"
    using c by (simp add: build links_into_links_new)
  have 6: "images s' = images s"
    using d(5) c by (simp add: build)
  have 7: "\<forall>j<n. j \<noteq> wh \<longrightarrow> nodes s' ! j = nodes s ! j"
  proof (intro allI impI)
    fix j assume j: "j < n" "j \<noteq> wh"
    then have "nodes s' ! j = nodes sC ! j"
      using d(4) [of j] len by (simp add: build)
    also have "\<dots> = nodes sA ! j"
      using j a(2) by (simp add: c(4) nth_append)
    also have "\<dots> = nodes s ! j"
      using j a(3) by simp
    finally show "nodes s' ! j = nodes s ! j" .
  qed
  from 1 2 3 4 5 6 7 show ?thesis by blast
qed

lemma shader_mix_white_result:
  "fst (shader_mix_white s) = length (nodes s) \<and>
   fst (snd (shader_mix_white s)) = Suc (length (nodes s)) \<and>
   length (nodes (snd (snd (shader_mix_white s)))) = length (nodes s) + 2 \<and>
   (\<forall>j<length (nodes s). nodes (snd (snd (shader_mix_white s))) ! j = nodes s ! j) \<and>
   images (snd (snd (shader_mix_white s))) = images s \<and>
   links (snd (snd (shader_mix_white s))) = links s"
  by (simp add: shader_mix_white_def Let_def nodes_new_def nth_append)

lemma texture_added_fields [simp]:
  "nodes (texture_added p d nc s) =
     nodes s @ [(new_node TEX_IMAGE)\<lparr>image := Some (length (images s))\<rparr>]"
  "images (texture_added p d nc s) = images s @ [loaded_image p d nc]"
  "links (texture_added p d nc s) = links s"
  "material_name (texture_added p d nc s) = material_name s"
  by (simp_all add: texture_added_def)

lemma import_second_shader_prepared:
  assumes "principled_node mp = Some p"
    and "find_texture_file h (file_path mp) (base_name mp) ''_trm'' = Some pt"
    and "decode h pt = Some dt"
    and "find_texture_file h (file_path mp) (base_name mp) ''_thc'' = Some ph"
    and "decode h ph = Some dh"
  shows "\<exists>s7. import_second_shader h mp s =
                 Inr (second_shader_build p (length (nodes s)) (Some (length (nodes s) + 1))
                        (length (nodes s) + 2) (length (nodes s) + 3) s7) \<and>
              length (nodes s7) = length (nodes s) + 4 \<and>
              nodes s7 ! (length (nodes s) + 1) =
                (new_node TEX_IMAGE)\<lparr>image := Some (length (images s) + 1)\<rparr> \<and>
              images s7 = images s @ [loaded_image pt dt False, loaded_image ph dh True]"
proof -
  define s2 where "s2 = texture_added ph dh True (texture_added pt dt False s)"
  have 1: "import_texture h mp ''_trm'' False s =
             (Inr (Some (length (nodes s))), texture_added pt dt False s)"
    using assms(2,3) by (rule import_texture_found)
  have 2: "import_texture h mp ''_thc'' True (texture_added pt dt False s) =
             (Inr (Some (length (nodes (texture_added pt dt False s)))), s2)"
    unfolding s2_def using assms(4,5) by (rule import_texture_found)
  have n2: "length (nodes s2) = length (nodes s) + 2"
    "nodes s2 ! (length (nodes s) + 1) = (new_node TEX_IMAGE)\<lparr>image := Some (length (images s) + 1)\<rparr>"
    "images s2 = images s @ [loaded_image pt dt False, loaded_image ph dh True]"
    by (simp_all add: s2_def nth_append)
  obtain mix wh s7 where mw: "shader_mix_white s2 = (mix, wh, s7)"
    by (cases "shader_mix_white s2") auto
  from shader_mix_white_result [of s2] mw n2
  have r: "mix = length (nodes s) + 2" "wh = length (nodes s) + 3"
    "length (nodes s7) = length (nodes s) + 4"
    "nodes s7 ! (length (nodes s) + 1) = (new_node TEX_IMAGE)\<lparr>image := Some (length (images s) + 1)\<rparr>"
    "images s7 = images s @ [loaded_image pt dt False, loaded_image ph dh True]"
    by simp_all
  have "import_second_shader h mp s =
          Inr (second_shader_build p (length (nodes s)) (Some (length (nodes s) + 1)) mix wh s7)"
    by (simp add: import_second_shader_def 1 2 mw assms(1))
  with r show ?thesis by blast
qed

lemma import_emission_colorspace:
  assumes "principled_node mp = Some p"
    and "emission_source h mp p s = (Inr (Some e), s1)"
    and "image (nodes s1 ! e) = Some i"
    and "is_grayscale_image (images s1 ! i) = Inr gray"
  shows "\<exists>s'. import_emission h mp s = Inr s' \<and>
           images s' = (if gray then (images s1)[i := (images s1 ! i)\<lparr>colorspace := ''Non-Color''\<rparr>]
                        else images s1)"
  using assms by (simp add: import_emission_def set_colorspace_def)

lemma every_pixel_gray_iff:
  "every_pixel_gray px \<longleftrightarrow> (\<forall>k. 4 * k < length px \<longrightarrow> gray_at px (4 * k))"
  by (auto simp: every_pixel_gray_def list_all_iff)

lemma import_normal_no_link:
  assumes "find_texture_file h (file_path mp) (base_name mp) ''_nrm'' = Some q"
    and "decode h q = Some d"
    and "normal_link_loop (principled_node mp) (links s) Unbound = Unbound"
  shows "import_normal h mp s = Inl UnboundLocalError"
  using assms(3) by (simp add: import_normal_def import_texture_found [OF assms(1,2)])

lemma example_listdir [simp]:
  "listdir (example_host files) ''/tex'' = Some files"
  "decode (example_host files) q = Some white_pixel"
  "listdir (unreadable_host files) ''/tex'' = Some files"
  "decode (unreadable_host files) q = None"
  by (simp_all add: example_host_def unreadable_host_def)

lemma processor_fields [simp]:
  "file_path char_processor = ''/tex''" "base_name char_processor = ''Char''"
  "principled_node char_processor = Some 0"
  "file_path bare_processor = ''/tex''" "base_name bare_processor = ''Char''"
  "principled_node bare_processor = None"
  "file_path lamp_processor = ''/tex''" "base_name lamp_processor = ''Lamp''"
  "principled_node lamp_processor = Some 0"
  by (simp_all add: char_processor_def bare_processor_def lamp_processor_def)

lemma example_files:
  "find_texture_file (example_host [''Char_nrm.png'']) ''/tex'' ''Char'' ''_nrm'' =
     Some ''/tex/Char_nrm.png''"
  "find_texture_file (example_host [''Char_trm.png'']) ''/tex'' ''Char'' ''_trm'' =
     Some ''/tex/Char_trm.png''"
  "find_texture_file (example_host [''Char_thc.png'']) ''/tex'' ''Char'' ''_trm'' = None"
  "find_texture_file (example_host [''Char_thc.png'']) ''/tex'' ''Char'' ''_thc'' =
     Some ''/tex/Char_thc.png''"
  "find_texture_file (example_host [''Char_trm.png'', ''Char_THC.png'']) ''/tex'' ''Char'' ''_trm'' =
     Some ''/tex/Char_trm.png''"
  "find_texture_file (example_host [''Char_trm.png'', ''Char_THC.png'']) ''/tex'' ''Char'' ''_thc'' =
     Some ''/tex/Char_THC.png''"
  by (simp_all add: find_texture_file_def lower_def path_join_def)

section \<open>The properties\<close>

subsection \<open>C1: the normal-map search without an existing link\<close>

text \<open>
  Claim C1 says that \<open>import_normal\<close>, when \<open>_nrm\<close> resolves and no link ends at the
  \<open>Normal\<close> input of the principled node, finds its local name initialised to none,
  creates a normal-map node and completes. The source does not initialise the name:
  on the material \<open>Char.001\<close>, whose only link ends at \<open>Base Color\<close>, with
  \<open>Char_nrm.png\<close> in the directory, the processor has base name \<open>Char\<close> and the
  principled node, the texture resolves, no link ends at \<open>Normal\<close>, and the operation
  raises \<open>UnboundLocalError\<close>.
\<close>

theorem import_normal_unbound_local:
  "init (example_host [''Char_nrm.png'']) char_scene ''/tex'' = char_processor \<and>
   find_texture_file (example_host [''Char_nrm.png'']) ''/tex'' ''Char'' ''_nrm'' =
     Some ''/tex/Char_nrm.png'' \<and>
   links_into char_scene 0 (Named ''Normal'') = [] \<and>
   import_normal (example_host [''Char_nrm.png'']) char_processor char_scene =
     Inl UnboundLocalError"
proof -
  have "find_texture_file (example_host [''Char_nrm.png'']) (file_path char_processor)
      (base_name char_processor) ''_nrm'' = Some ''/tex/Char_nrm.png''"
    by (simp add: example_files)
  moreover have "decode (example_host [''Char_nrm.png'']) ''/tex/Char_nrm.png'' = Some white_pixel"
    by simp
  moreover have "normal_link_loop (principled_node char_processor) (links char_scene) Unbound = Unbound"
    by (simp add: char_scene_def color_link_def)
  ultimately have "import_normal (example_host [''Char_nrm.png'']) char_processor char_scene =
     Inl UnboundLocalError"
    by (rule import_normal_no_link)
  moreover have "init (example_host [''Char_nrm.png'']) char_scene ''/tex'' = char_processor"
    by (simp add: init_def find_base_texture_def find_principled_node_def char_scene_def
        char_processor_def new_node_def suffixes_def image_filename_def basename_def
        abspath_def path_join_def example_host_def match_at_def lower_def)
  ultimately show ?thesis
    by (simp add: example_files links_into_def char_scene_def color_link_def)
qed

subsection \<open>C2: a material without a principled node\<close>

text \<open>
  Claim C2 says that every operation that needs the principled node completes as a
  no-op when the material has none. Only \<open>import_emission\<close> tests for it. On a
  material whose graph holds one image texture and no principled node, the processor
  caches \<open>None\<close>; then \<open>import_second_alb\<close> raises \<open>AttributeError\<close> at its first
  statement, the linking helper raises it for a node it is given,
  \<open>import_second_shader\<close> raises it once \<open>_trm\<close> resolves, and \<open>import_normal\<close>
  raises \<open>UnboundLocalError\<close> once \<open>_nrm\<close> resolves.
\<close>

theorem missing_principled_raises:
  "init (example_host []) bare_scene ''/tex'' = bare_processor \<and>
   import_second_alb (example_host []) bare_processor bare_scene = Inl AttributeError \<and>
   link_texture_principled_node bare_processor (Some 0) ''Base Color'' bare_scene =
     Inl AttributeError \<and>
   import_second_shader (example_host [''Char_trm.png'']) bare_processor bare_scene =
     Inl AttributeError \<and>
   import_normal (example_host [''Char_nrm.png'']) bare_processor bare_scene =
     Inl UnboundLocalError"
proof -
  have 1: "init (example_host []) bare_scene ''/tex'' = bare_processor"
    by (simp add: init_def find_base_texture_def find_principled_node_def bare_scene_def
        bare_processor_def new_node_def suffixes_def image_filename_def basename_def
        abspath_def match_at_def lower_def)
  have 2: "import_second_alb (example_host []) bare_processor bare_scene = Inl AttributeError"
    by (simp add: import_second_alb_def)
  have 3: "link_texture_principled_node bare_processor (Some 0) ''Base Color'' bare_scene =
     Inl AttributeError"
    by (simp add: link_texture_principled_node_def)
  have "import_texture (example_host [''Char_trm.png'']) bare_processor ''_trm'' False bare_scene =
     (Inr (Some (length (nodes bare_scene))),
      texture_added ''/tex/Char_trm.png'' white_pixel False bare_scene)"
    by (rule import_texture_found) (simp_all add: example_files)
  moreover have "find_texture_file (example_host [''Char_trm.png'']) (file_path bare_processor)
      (base_name bare_processor) ''_thc'' = None"
    by (simp add: find_texture_file_def lower_def)
  ultimately have 4: "import_second_shader (example_host [''Char_trm.png'']) bare_processor bare_scene =
     Inl AttributeError"
    by (simp add: import_second_shader_def import_texture_missing split: prod.splits)
  have "find_texture_file (example_host [''Char_nrm.png'']) (file_path bare_processor)
      (base_name bare_processor) ''_nrm'' = Some ''/tex/Char_nrm.png''"
    by (simp add: example_files)
  moreover have "decode (example_host [''Char_nrm.png'']) ''/tex/Char_nrm.png'' = Some white_pixel"
    by simp
  moreover have "normal_link_loop (principled_node bare_processor) (links bare_scene) Unbound = Unbound"
    by (simp add: bare_scene_def)
  ultimately have 5: "import_normal (example_host [''Char_nrm.png'']) bare_processor bare_scene =
     Inl UnboundLocalError"
    by (rule import_normal_no_link)
  from 1 2 3 4 5 show ?thesis by simp
qed

subsection \<open>C3: the base name from an albedo texture\<close>

text \<open>
  Claim C3 says that for every material with an image-texture node whose file name
  contains \<open>_alb\<close>, the base name is that file name up to the match. It fails when
  another texture comes first: with \<open>foo_emm.png\<close> before \<open>bar_alb.png\<close> the second node
  names \<open>_alb\<close> at position 3, after the prefix \<open>bar\<close>, and the base name is \<open>foo\<close>.
\<close>

theorem base_name_alb_counterexample:
  "ntype (nodes two_texture_scene ! 1) = TEX_IMAGE \<and>
   image (nodes two_texture_scene ! 1) = Some 1 \<and>
   image_filename (example_host []) (images two_texture_scene ! 1) = ''bar_alb.png'' \<and>
   search ''_alb'' ''bar_alb.png'' = Some 3 \<and>
   base_name (init (example_host []) two_texture_scene ''/tex'') = ''foo'' \<and>
   take 3 ''bar_alb.png'' \<noteq> ''foo''"
  by (simp add: init_def find_base_texture_def two_texture_scene_def new_node_def suffixes_def
      image_filename_def basename_def abspath_def match_at_def lower_def)

text \<open>
  Claim C3 as amended: when the first node, in iteration order, that is an image texture
  whose file name contains one of the three suffixes has a file name that contains
  \<open>_alb\<close>, first at position \<open>k\<close>, and \<open>k\<close> is not 0, the base name is the first \<open>k\<close>
  characters of that file name, whatever the name of the material.
\<close>

theorem base_name_from_alb_texture:
  assumes "nodes s = pre @ n # post"
    and "\<forall>m\<in>set pre. \<not> names_suffix h s m"
    and "ntype n = TEX_IMAGE" and "image n = Some i"
    and "match_at ''_alb'' (drop k (image_filename h (images s ! i)))"
    and "\<forall>j<k. \<not> match_at ''_alb'' (drop j (image_filename h (images s ! i)))"
    and "0 < k"
  shows "base_name (init h (s\<lparr>material_name := nm\<rparr>) path) = take k (image_filename h (images s ! i))"
proof -
  let ?f = "image_filename h (images s ! i)"
  have len: "k \<le> length ?f"
    using assms(5) by (cases "k \<le> length ?f") (auto simp: match_at_def)
  with assms(5,6) have "search ''_alb'' ?f = Some k"
    by (simp add: search_Some_iff)
  then have "match_suffixes suffixes ?f = Some (take k ?f)"
    by (simp add: suffixes_def)
  with assms(3,4) have "find_base_texture_loop h (images s) (n # post) = Some (take k ?f)"
    by simp
  with loop_skips [OF assms(2), of "n # post"] assms(1)
  have "find_base_texture h s = Some (take k ?f)"
    by (simp add: find_base_texture_def)
  moreover have "find_base_texture h (s\<lparr>material_name := nm\<rparr>) = find_base_texture h s"
    by (simp add: find_base_texture_def)
  moreover have "take k ?f \<noteq> []"
    using len assms(7) by auto
  ultimately show ?thesis
    by (simp add: init_def)
qed

theorem base_name_from_alb_texture_witness:
  "base_name (init (example_host []) (char_scene\<lparr>material_name := ''Other''\<rparr>) ''/tex'') = ''Char''"
proof -
  let ?f = "image_filename (example_host []) (images char_scene ! 0)"
  have f: "?f = ''Char_Alb.png''"
    by (simp add: char_scene_def image_filename_def basename_def abspath_def example_host_def
        path_join_def)
  have "search ''_alb'' ''Char_Alb.png'' = Some 4"
    by (simp add: match_at_def lower_def)
  then have m: "match_at ''_alb'' (drop 4 ?f)" "\<forall>j<4. \<not> match_at ''_alb'' (drop j ?f)"
    unfolding f search_Some_iff by blast+
  have n: "nodes char_scene = [new_node BSDF_PRINCIPLED] @ (new_node TEX_IMAGE)\<lparr>image := Some 0\<rparr> # []"
    by (simp add: char_scene_def)
  have p: "\<forall>m\<in>set [new_node BSDF_PRINCIPLED]. \<not> names_suffix (example_host []) char_scene m"
    by (simp add: names_suffix_def new_node_def)
  have "base_name (init (example_host []) (char_scene\<lparr>material_name := ''Other''\<rparr>) ''/tex'') =
        take 4 ?f"
    using base_name_from_alb_texture [OF n p _ _ m, of "''Other''" "''/tex''"]
    by (simp add: new_node_def)
  then show ?thesis by (simp add: f)
qed

subsection \<open>C4: the secondary shader without a \<open>_trm\<close> texture\<close>

text \<open>
  Claim C4 says that \<open>import_second_shader\<close> leaves the graph unchanged when no \<open>_trm\<close>
  texture resolves, whether or not \<open>_thc\<close> is there. The source imports \<open>_thc\<close> before it
  looks at \<open>_trm\<close>: with only \<open>Char_thc.png\<close> in the directory, \<open>_trm\<close> does not resolve and
  the scene gains a node.
\<close>

theorem second_shader_thc_only_counterexample:
  "find_texture_file (example_host [''Char_thc.png'']) (file_path char_processor)
     (base_name char_processor) ''_trm'' = None \<and>
   import_second_shader (example_host [''Char_thc.png'']) char_processor char_scene \<noteq>
     Inr char_scene \<and>
   (case import_second_shader (example_host [''Char_thc.png'']) char_processor char_scene of
      Inl e \<Rightarrow> False
    | Inr s' \<Rightarrow> length (nodes s') = 3 \<and> length (nodes char_scene) = 2)"
proof -
  let ?h = "example_host [''Char_thc.png'']"
  have 1: "import_texture ?h char_processor ''_trm'' False char_scene = (Inr None, char_scene)"
    by (rule import_texture_missing) (simp add: example_files)
  have 2: "import_texture ?h char_processor ''_thc'' True char_scene =
             (Inr (Some (length (nodes char_scene))),
              texture_added ''/tex/Char_thc.png'' white_pixel True char_scene)"
    by (rule import_texture_found) (simp_all add: example_files)
  have 3: "import_second_shader ?h char_processor char_scene =
        Inr (texture_added ''/tex/Char_thc.png'' white_pixel True char_scene)"
    by (simp add: import_second_shader_def 1 2)
  have 4: "length (nodes (texture_added ''/tex/Char_thc.png'' white_pixel True char_scene)) = 3"
    "length (nodes char_scene) = 2"
    by (simp_all add: char_scene_def)
  have "texture_added ''/tex/Char_thc.png'' white_pixel True char_scene \<noteq> char_scene"
    using 4 by (metis numeral_eq_iff semiring_norm(88))
  with 3 4 show ?thesis by (simp add: example_files)
qed

text \<open>
  Claim C4 as amended: when no \<open>_trm\<close> texture resolves, \<open>import_second_shader\<close> does
  what the import of \<open>_thc\<close> does and nothing more. The graph is unchanged when \<open>_thc\<close>
  does not resolve either; when it resolves and the host loads the file, the graph gains
  the image-texture node of \<open>_thc\<close> with its image marked non-color, and no link; an
  error of the import is the error of the operation.
\<close>

theorem second_shader_without_trm:
  assumes "find_texture_file h (file_path mp) (base_name mp) ''_trm'' = None"
  shows "import_second_shader h mp s =
           (case import_texture h mp ''_thc'' True s of
              (Inl err, s') \<Rightarrow> Inl err
            | (Inr thc_node, s') \<Rightarrow> Inr s') \<and>
         (find_texture_file h (file_path mp) (base_name mp) ''_thc'' = None \<longrightarrow>
            import_second_shader h mp s = Inr s) \<and>
         (\<forall>p d. find_texture_file h (file_path mp) (base_name mp) ''_thc'' = Some p \<and>
                decode h p = Some d \<longrightarrow>
            import_second_shader h mp s = Inr (texture_added p d True s))"
proof -
  have 1: "import_texture h mp ''_trm'' False s = (Inr None, s)"
    using assms by (rule import_texture_missing)
  have 2: "import_second_shader h mp s =
           (case import_texture h mp ''_thc'' True s of
              (Inl err, s') \<Rightarrow> Inl err
            | (Inr thc_node, s') \<Rightarrow> Inr s')"
    by (simp add: import_second_shader_def 1 split: prod.splits sum.splits)
  show ?thesis
    by (auto simp: 2 import_texture_missing import_texture_found)
qed

theorem second_shader_without_trm_witness:
  "import_second_shader (example_host [''Char_thc.png'']) char_processor char_scene =
     Inr (texture_added ''/tex/Char_thc.png'' white_pixel True char_scene)"
proof -
  have "find_texture_file (example_host [''Char_thc.png'']) (file_path char_processor)
          (base_name char_processor) ''_trm'' = None"
    by (simp add: example_files)
  from second_shader_without_trm [OF this, of char_scene]
  have "\<forall>p d. find_texture_file (example_host [''Char_thc.png'']) (file_path char_processor)
              (base_name char_processor) ''_thc'' = Some p \<and>
              decode (example_host [''Char_thc.png'']) p = Some d \<longrightarrow>
            import_second_shader (example_host [''Char_thc.png'']) char_processor char_scene =
              Inr (texture_added p d True char_scene)"
    by blast
  then show ?thesis by (simp add: example_files)
qed

subsection \<open>C5: the result of \<open>import_texture\<close>\<close>

text \<open>
  Claim C5 says that \<open>import_texture\<close> returns the not-found value exactly when the
  directory cannot be listed or holds no file with the expected name, and that otherwise
  it creates one image-texture node holding the loaded image and returns it. The load
  stands outside the \<open>try\<close>: when \<open>Char_nrm.png\<close> is listed and the host cannot read it
  as an image, the operation returns neither; it raises \<open>RuntimeError\<close>, and the node made
  before the load stays in the graph without an image.
\<close>

theorem import_texture_unreadable_counterexample:
  "listdir (unreadable_host [''Char_nrm.png'']) (file_path char_processor) =
     Some [''Char_nrm.png''] \<and>
   lower ''Char_nrm.png'' = lower (base_name char_processor @ ''_nrm'' @ ''.png'') \<and>
   import_texture (unreadable_host [''Char_nrm.png'']) char_processor ''_nrm'' True char_scene =
     (Inl RuntimeError, char_scene\<lparr>nodes := nodes char_scene @ [new_node TEX_IMAGE]\<rparr>) \<and>
   image (new_node TEX_IMAGE) = None"
proof -
  have "find_texture_file (unreadable_host [''Char_nrm.png'']) (file_path char_processor)
          (base_name char_processor) ''_nrm'' = Some ''/tex/Char_nrm.png''"
    by (simp add: find_texture_file_def lower_def path_join_def)
  moreover have "decode (unreadable_host [''Char_nrm.png'']) ''/tex/Char_nrm.png'' = None"
    by simp
  ultimately have "import_texture (unreadable_host [''Char_nrm.png'']) char_processor ''_nrm'' True
      char_scene = (Inl RuntimeError, node_left char_scene)"
    by (rule import_texture_unreadable)
  then show ?thesis by (simp add: node_left_def new_node_def lower_def)
qed

text \<open>
  Claim C5 as amended: \<open>import_texture\<close> returns the not-found value exactly when the
  directory cannot be listed or holds no file whose name equals \<open>base_name + suffix +
  .png\<close> without regard to case, and then the scene is unchanged. Otherwise, when the
  host loads the first such file, the scene gains one image-texture node that holds the
  loaded image, marked non-color exactly when the flag is set, and the node is returned;
  when the host cannot load that file, its \<open>RuntimeError\<close> goes to the caller and the
  scene has gained one image-texture node without an image.
\<close>

theorem import_texture_result:
  "(fst (import_texture h mp sfx nc s) = Inr None \<longleftrightarrow>
      (listdir h (file_path mp) = None \<or>
       (\<exists>files. listdir h (file_path mp) = Some files \<and>
          (\<forall>f\<in>set files. lower f \<noteq> lower (base_name mp @ sfx @ ''.png''))))) \<and>
   (fst (import_texture h mp sfx nc s) = Inr None \<longrightarrow> snd (import_texture h mp sfx nc s) = s) \<and>
   (fst (import_texture h mp sfx nc s) \<noteq> Inr None \<longrightarrow>
      (\<exists>files file.
         listdir h (file_path mp) = Some files \<and>
         find (\<lambda>f. lower f = lower (base_name mp @ sfx @ ''.png'')) files = Some file \<and>
         import_texture h mp sfx nc s =
           (case decode h (path_join (file_path mp) file) of
              Some d \<Rightarrow>
                (Inr (Some (length (nodes s))),
                 texture_added (path_join (file_path mp) file) d nc s)
            | None \<Rightarrow> (Inl RuntimeError, node_left s))))"
proof (cases "find_texture_file h (file_path mp) (base_name mp) sfx")
  case None
  then have "import_texture h mp sfx nc s = (Inr None, s)" by (rule import_texture_missing)
  with None show ?thesis by (simp add: find_texture_file_None_iff)
next
  case (Some p)
  then obtain files fname where
    l: "listdir h (file_path mp) = Some files" and
    f: "find (\<lambda>f. lower f = lower (base_name mp @ sfx @ ''.png'')) files = Some fname" and
    p: "p = path_join (file_path mp) fname"
    by (auto simp: find_texture_file_def split: option.splits)
  have r: "import_texture h mp sfx nc s =
           (case decode h p of
              Some d \<Rightarrow> (Inr (Some (length (nodes s))), texture_added p d nc s)
            | None \<Rightarrow> (Inl RuntimeError, node_left s))"
    using Some by (cases "decode h p") (simp_all add: import_texture_found import_texture_unreadable)
  then have n: "fst (import_texture h mp sfx nc s) \<noteq> Inr None"
    by (cases "decode h p") simp_all
  from f have m: "fname \<in> set files \<and> lower fname = lower (base_name mp @ sfx @ ''.png'')"
    by (auto simp: find_Some_iff)
  have 1: "fst (import_texture h mp sfx nc s) = Inr None \<longleftrightarrow>
      (listdir h (file_path mp) = None \<or>
       (\<exists>files. listdir h (file_path mp) = Some files \<and>
          (\<forall>f\<in>set files. lower f \<noteq> lower (base_name mp @ sfx @ ''.png''))))"
    using n l m by auto
  have 3: "\<exists>files file.
         listdir h (file_path mp) = Some files \<and>
         find (\<lambda>f. lower f = lower (base_name mp @ sfx @ ''.png'')) files = Some file \<and>
         import_texture h mp sfx nc s =
           (case decode h (path_join (file_path mp) file) of
              Some d \<Rightarrow>
                (Inr (Some (length (nodes s))),
                 texture_added (path_join (file_path mp) file) d nc s)
            | None \<Rightarrow> (Inl RuntimeError, node_left s))"
    using l f r unfolding p by blast
  from 1 n 3 show ?thesis by blast
qed

theorem import_texture_result_witness:
  "import_texture (example_host [''x.txt'', ''char_NRM.PNG'']) char_processor ''_nrm'' True char_scene =
     (Inr (Some 2), texture_added ''/tex/char_NRM.PNG'' white_pixel True char_scene)"
proof -
  let ?h = "example_host [''x.txt'', ''char_NRM.PNG'']"
  note t = import_texture_result [of ?h char_processor "''_nrm''" True char_scene]
  have m: "lower ''char_NRM.PNG'' = lower (base_name char_processor @ ''_nrm'' @ ''.png'')"
    by (simp add: lower_def)
  from t m have "fst (import_texture ?h char_processor ''_nrm'' True char_scene) \<noteq> Inr None"
    by auto
  with t obtain files fname where
    l: "listdir ?h (file_path char_processor) = Some files" and
    f: "find (\<lambda>f. lower f = lower (base_name char_processor @ ''_nrm'' @ ''.png'')) files = Some fname" and
    r: "import_texture ?h char_processor ''_nrm'' True char_scene =
          (case decode ?h (path_join (file_path char_processor) fname) of
             Some d \<Rightarrow>
               (Inr (Some (length (nodes char_scene))),
                texture_added (path_join (file_path char_processor) fname) d True char_scene)
           | None \<Rightarrow> (Inl RuntimeError, node_left char_scene))"
    by blast
  from l have "files = [''x.txt'', ''char_NRM.PNG'']" by simp
  with f have "fname = ''char_NRM.PNG''" by (simp add: lower_def)
  with r show ?thesis by (simp add: path_join_def char_scene_def)
qed

subsection \<open>C6: the secondary shader with both textures\<close>

text \<open>
  Claim C6: on a material with a principled node, when both \<open>_trm\<close> and \<open>_thc\<close>
  resolve, each to a file that the host loads, \<open>import_second_shader\<close> completes;
  afterwards the \<open>Surface\<close> input of a
  material-output node is driven by the add-shader node, whose two inputs are driven by
  the \<open>BSDF\<close> output of the principled node and by the output of the mix-shader node, and
  the \<open>Fac\<close> input of the mix-shader node is driven by the \<open>Color\<close> output of the
  image-texture node that holds the \<open>_thc\<close> image.
\<close>

theorem second_shader_wiring:
  assumes "principled_node mp = Some p"
    and "find_texture_file h (file_path mp) (base_name mp) ''_trm'' = Some pt"
    and "decode h pt = Some dt"
    and "find_texture_file h (file_path mp) (base_name mp) ''_thc'' = Some ph"
    and "decode h ph = Some dh"
  shows "\<exists>s' out.
           import_second_shader h mp s = Inr s' \<and>
           out < length (nodes s') \<and>
           ntype (nodes s' ! out) = OUTPUT_MATERIAL \<and>
           links_into s' out (Named ''Surface'') = [(length (nodes s) + 6, Named ''Shader'')] \<and>
           ntype (nodes s' ! (length (nodes s) + 6)) = ADD_SHADER \<and>
           links_into s' (length (nodes s) + 6) (Indexed 0) = [(p, Named ''BSDF'')] \<and>
           links_into s' (length (nodes s) + 6) (Indexed 1) =
             [(length (nodes s) + 5, Named ''Shader'')] \<and>
           ntype (nodes s' ! (length (nodes s) + 5)) = MIX_SHADER \<and>
           links_into s' (length (nodes s) + 5) (Named ''Fac'') =
             [(length (nodes s) + 1, Named ''Color'')] \<and>
           nodes s' ! (length (nodes s) + 1) =
             (new_node TEX_IMAGE)\<lparr>image := Some (length (images s) + 1)\<rparr> \<and>
           images s' ! (length (images s) + 1) = loaded_image ph dh True"
proof -
  let ?n = "length (nodes s)"
  from import_second_shader_prepared [OF assms, of s] obtain s7 where
    run: "import_second_shader h mp s =
            Inr (second_shader_build p ?n (Some (?n + 1)) (?n + 2) (?n + 3) s7)" and
    len: "length (nodes s7) = ?n + 4" and
    thc: "nodes s7 ! (?n + 1) = (new_node TEX_IMAGE)\<lparr>image := Some (length (images s) + 1)\<rparr>" and
    img: "images s7 = images s @ [loaded_image pt dt False, loaded_image ph dh True]"
    by blast
  define s' where "s' = second_shader_build p ?n (Some (?n + 1)) (?n + 2) (?n + 3) s7"
  from second_shader_build_wiring [of "?n + 4" s7 s' p ?n "?n + 1" "?n + 2" "?n + 3"] len s'_def
  obtain out where w:
    "out < length (nodes s')"
    "ntype (nodes s' ! out) = OUTPUT_MATERIAL"
    "links_into s' out (Named ''Surface'') = [(?n + 4 + 2, Named ''Shader'')]"
    "ntype (nodes s' ! (?n + 4 + 2)) = ADD_SHADER"
    "links_into s' (?n + 4 + 2) (Indexed 0) = [(p, Named ''BSDF'')]"
    "links_into s' (?n + 4 + 2) (Indexed 1) = [(?n + 4 + 1, Named ''Shader'')]"
    "ntype (nodes s' ! (?n + 4 + 1)) = MIX_SHADER"
    "links_into s' (?n + 4 + 1) (Named ''Fac'') = [(?n + 1, Named ''Color'')]"
    "images s' = images s7"
    "\<forall>j<?n + 4. j \<noteq> ?n + 3 \<longrightarrow> nodes s' ! j = nodes s7 ! j"
    by auto
  have a: "?n + 4 + 2 = ?n + 6" "?n + 4 + 1 = ?n + 5" by simp_all
  have "nodes s' ! (?n + 1) = nodes s7 ! (?n + 1)"
    using w(10) by simp
  with thc have t: "nodes s' ! (?n + 1) = (new_node TEX_IMAGE)\<lparr>image := Some (length (images s) + 1)\<rparr>"
    by simp
  have i: "images s' ! (length (images s) + 1) = loaded_image ph dh True"
    by (simp add: w(9) img nth_append)
  from run w(1-8) t i show ?thesis
    unfolding a s'_def [symmetric] by blast
qed

theorem second_shader_wiring_witness:
  "\<exists>s' out.
     import_second_shader (example_host [''Char_trm.png'', ''Char_THC.png'']) char_processor
       char_scene = Inr s' \<and>
     ntype (nodes s' ! out) = OUTPUT_MATERIAL \<and>
     links_into s' out (Named ''Surface'') = [(8, Named ''Shader'')] \<and>
     ntype (nodes s' ! 8) = ADD_SHADER \<and>
     links_into s' 8 (Indexed 0) = [(0, Named ''BSDF'')] \<and>
     links_into s' 8 (Indexed 1) = [(7, Named ''Shader'')] \<and>
     ntype (nodes s' ! 7) = MIX_SHADER \<and>
     links_into s' 7 (Named ''Fac'') = [(3, Named ''Color'')] \<and>
     image (nodes s' ! 3) = Some 2 \<and>
     filepath (images s' ! 2) = ''/tex/Char_THC.png''"
proof -
  let ?h = "example_host [''Char_trm.png'', ''Char_THC.png'']"
  have n: "length (nodes char_scene) = 2" "length (images char_scene) = 1"
    by (simp_all add: char_scene_def)
  have h1: "principled_node char_processor = Some 0"
    by simp
  have h2: "find_texture_file ?h (file_path char_processor) (base_name char_processor) ''_trm'' =
              Some ''/tex/Char_trm.png''"
    by (simp add: example_files)
  have h3: "find_texture_file ?h (file_path char_processor) (base_name char_processor) ''_thc'' =
              Some ''/tex/Char_THC.png''"
    by (simp add: example_files)
  have d2: "decode ?h ''/tex/Char_trm.png'' = Some white_pixel"
    and d3: "decode ?h ''/tex/Char_THC.png'' = Some white_pixel"
    by simp_all
  from second_shader_wiring [OF h1 h2 d2 h3 d3, of char_scene] obtain s' out where
    r: "import_second_shader ?h char_processor char_scene = Inr s'"
       "ntype (nodes s' ! out) = OUTPUT_MATERIAL"
       "links_into s' out (Named ''Surface'') = [(length (nodes char_scene) + 6, Named ''Shader'')]"
       "ntype (nodes s' ! (length (nodes char_scene) + 6)) = ADD_SHADER"
       "links_into s' (length (nodes char_scene) + 6) (Indexed 0) = [(0, Named ''BSDF'')]"
       "links_into s' (length (nodes char_scene) + 6) (Indexed 1) =
          [(length (nodes char_scene) + 5, Named ''Shader'')]"
       "ntype (nodes s' ! (length (nodes char_scene) + 5)) = MIX_SHADER"
       "links_into s' (length (nodes char_scene) + 5) (Named ''Fac'') =
          [(length (nodes char_scene) + 1, Named ''Color'')]"
       "nodes s' ! (length (nodes char_scene) + 1) =
          (new_node TEX_IMAGE)\<lparr>image := Some (length (images char_scene) + 1)\<rparr>"
       "images s' ! (length (images char_scene) + 1) =
          loaded_image ''/tex/Char_THC.png'' white_pixel True"
    by blast
  have k: "length (nodes char_scene) + 6 = 8" "length (nodes char_scene) + 5 = 7"
    "length (nodes char_scene) + 1 = 3" "length (images char_scene) + 1 = 2"
    using n by simp_all
  have "import_second_shader ?h char_processor char_scene = Inr s' \<and>
     ntype (nodes s' ! out) = OUTPUT_MATERIAL \<and>
     links_into s' out (Named ''Surface'') = [(8, Named ''Shader'')] \<and>
     ntype (nodes s' ! 8) = ADD_SHADER \<and>
     links_into s' 8 (Indexed 0) = [(0, Named ''BSDF'')] \<and>
     links_into s' 8 (Indexed 1) = [(7, Named ''Shader'')] \<and>
     ntype (nodes s' ! 7) = MIX_SHADER \<and>
     links_into s' 7 (Named ''Fac'') = [(3, Named ''Color'')] \<and>
     image (nodes s' ! 3) = Some 2 \<and>
     filepath (images s' ! 2) = ''/tex/Char_THC.png''"
    using r [unfolded k] by (simp add: loaded_image_def)
  then show ?thesis by (intro exI)
qed

subsection \<open>C7: the grayscale classifier and the colour space of the emission image\<close>

text \<open>
  Claim C7: the classifier returns true exactly when every sampled pixel has
  \<open>R == G == B\<close>, the fourth component ignored. Hence, when \<open>import_emission\<close> has an
  emission node with an image and the classifier returns, the colour space of that
  image is set to non-color exactly when every sampled pixel is gray; otherwise no image
  is changed.
\<close>

theorem grayscale_classifier:
  "(is_grayscale_image img = Inr True \<longleftrightarrow> every_pixel_gray (pixels img)) \<and>
   (principled_node mp = Some p \<and> emission_source h mp p s = (Inr (Some e), s1) \<and>
    image (nodes s1 ! e) = Some i \<and> is_grayscale_image (images s1 ! i) = Inr gray \<longrightarrow>
      (\<exists>s'. import_emission h mp s = Inr s' \<and>
            images s' =
              (if every_pixel_gray (pixels (images s1 ! i))
               then (images s1)[i := (images s1 ! i)\<lparr>colorspace := ''Non-Color''\<rparr>]
               else images s1)))"
proof (intro conjI impI)
  show "is_grayscale_image img = Inr True \<longleftrightarrow> every_pixel_gray (pixels img)"
    by (simp add: is_grayscale_image_iff every_pixel_gray_iff)
next
  assume a: "principled_node mp = Some p \<and> emission_source h mp p s = (Inr (Some e), s1) \<and>
    image (nodes s1 ! e) = Some i \<and> is_grayscale_image (images s1 ! i) = Inr gray"
  then have "gray \<longleftrightarrow> every_pixel_gray (pixels (images s1 ! i))"
    using is_grayscale_image_iff [of "images s1 ! i"] by (simp add: every_pixel_gray_iff)
  moreover from a have b: "principled_node mp = Some p" "emission_source h mp p s = (Inr (Some e), s1)"
    "image (nodes s1 ! e) = Some i" "is_grayscale_image (images s1 ! i) = Inr gray"
    by simp_all
  have "\<exists>s'. import_emission h mp s = Inr s' \<and>
           images s' = (if gray then (images s1)[i := (images s1 ! i)\<lparr>colorspace := ''Non-Color''\<rparr>]
                        else images s1)"
    using b by (rule import_emission_colorspace)
  ultimately show "\<exists>s'. import_emission h mp s = Inr s' \<and>
            images s' =
              (if every_pixel_gray (pixels (images s1 ! i))
               then (images s1)[i := (images s1 ! i)\<lparr>colorspace := ''Non-Color''\<rparr>]
               else images s1)"
    by simp
qed

theorem grayscale_classifier_witness:
  "every_pixel_gray (pixels (images gray_emission_scene ! 0)) \<and>
   (case import_emission (example_host []) lamp_processor gray_emission_scene of
      Inl err \<Rightarrow> False
    | Inr s' \<Rightarrow> map colorspace (images s') = [''Non-Color''])"
proof -
  let ?img = "images gray_emission_scene ! 0"
  have g: "is_grayscale_image ?img = Inr True"
    by (simp add: is_grayscale_image_def gray_emission_scene_def grayscale_loop.simps
        differs_def)
  have src: "emission_source (example_host []) lamp_processor 0 gray_emission_scene =
          (Inr (Some 1), gray_emission_scene)"
    by (simp add: emission_source_def find_emission_link_def gray_emission_scene_def
        color_link_def new_node_def)
  have im: "image (nodes gray_emission_scene ! 1) = Some 0"
    by (simp add: gray_emission_scene_def)
  note t = grayscale_classifier [of ?img lamp_processor 0 "example_host []" gray_emission_scene
      1 gray_emission_scene 0 True]
  from t g have e: "every_pixel_gray (pixels ?img)" by simp
  from t g src im e obtain s' where
    "import_emission (example_host []) lamp_processor gray_emission_scene = Inr s'"
    "images s' = (images gray_emission_scene)[0 := ?img\<lparr>colorspace := ''Non-Color''\<rparr>]"
    by auto
  with e show ?thesis by (simp add: gray_emission_scene_def)
qed

subsection \<open>C8: the base name from the name of the material\<close>

text \<open>
  Claim C8: when no image-texture node of the material has a file name that contains
  \<open>_alb\<close>, \<open>_emm\<close> or \<open>_emi\<close> in any letter case, the base name is the name of the
  material up to its first full stop.
\<close>

theorem base_name_from_material:
  assumes "\<forall>m\<in>set (nodes s). \<not> names_suffix h s m"
  shows "base_name (init h s path) = takeWhile (\<lambda>c. c \<noteq> CHR ''.'') (material_name s)"
  using base_texture_None [OF assms]
  by (simp add: init_def find_base_from_material_def split_first_def)

theorem base_name_from_material_witness:
  "base_name (init (example_host []) plain_scene ''/tex'') = ''Body''"
proof -
  have "\<forall>m\<in>set (nodes plain_scene). \<not> names_suffix (example_host []) plain_scene m"
    by (simp add: plain_scene_def names_suffix_def new_node_def)
  from base_name_from_material [OF this, of "''/tex''"] show ?thesis
    by (simp add: plain_scene_def)
qed

subsection \<open>C9: two imports of the same texture\<close>

text \<open>
  Claim C9: when the file is in the directory and the host loads it, two calls of
  \<open>import_texture\<close> with the same suffix return two different nodes; the scene gains both, each an image-texture
  node with an image of its own, and both images are loaded from the same file.
\<close>

theorem import_texture_twice:
  assumes "listdir h (file_path mp) = Some files"
    and "find (\<lambda>f. lower f = lower (base_name mp @ sfx @ ''.png'')) files = Some file"
    and "decode h (path_join (file_path mp) file) = Some d"
  shows "\<exists>n1 n2 i1 i2 s1 s2.
           import_texture h mp sfx nc1 s = (Inr (Some n1), s1) \<and>
           import_texture h mp sfx nc2 s1 = (Inr (Some n2), s2) \<and>
           n1 \<noteq> n2 \<and> i1 \<noteq> i2 \<and>
           nodes s2 = nodes s @ [(new_node TEX_IMAGE)\<lparr>image := Some i1\<rparr>,
                                 (new_node TEX_IMAGE)\<lparr>image := Some i2\<rparr>] \<and>
           n1 = length (nodes s) \<and> n2 = Suc (length (nodes s)) \<and>
           i1 = length (images s) \<and> i2 = Suc (length (images s)) \<and>
           filepath (images s2 ! i1) = path_join (file_path mp) file \<and>
           filepath (images s2 ! i2) = path_join (file_path mp) file \<and>
           pixels (images s2 ! i1) = snd d \<and>
           pixels (images s2 ! i2) = snd d"
proof -
  let ?p = "path_join (file_path mp) file"
  have r: "find_texture_file h (file_path mp) (base_name mp) sfx = Some ?p"
    using assms(1,2) by (rule find_texture_file_Some)
  have 1: "import_texture h mp sfx nc1 s =
             (Inr (Some (length (nodes s))), texture_added ?p d nc1 s)"
    using r assms(3) by (rule import_texture_found)
  have 2: "import_texture h mp sfx nc2 (texture_added ?p d nc1 s) =
        (Inr (Some (length (nodes (texture_added ?p d nc1 s)))),
         texture_added ?p d nc2 (texture_added ?p d nc1 s))"
    using r assms(3) by (rule import_texture_found)
  show ?thesis
    unfolding 1
    by (simp add: 2) (simp add: texture_added_def loaded_image_def nth_append)
qed

theorem import_texture_twice_witness:
  "\<exists>n1 n2 i1 i2 s1 s2.
     import_texture (example_host [''Char_nrm.png'']) char_processor ''_nrm'' True char_scene =
       (Inr (Some n1), s1) \<and>
     import_texture (example_host [''Char_nrm.png'']) char_processor ''_nrm'' True s1 =
       (Inr (Some n2), s2) \<and>
     n1 \<noteq> n2 \<and> i1 \<noteq> i2 \<and> image (nodes s2 ! n1) = Some i1 \<and> image (nodes s2 ! n2) = Some i2 \<and>
     filepath (images s2 ! i1) = ''/tex/Char_nrm.png'' \<and>
     filepath (images s2 ! i2) = ''/tex/Char_nrm.png''"
proof -
  have l: "listdir (example_host [''Char_nrm.png'']) (file_path char_processor) =
           Some [''Char_nrm.png'']"
    by simp
  have f: "find (\<lambda>f. lower f = lower (base_name char_processor @ ''_nrm'' @ ''.png''))
             [''Char_nrm.png''] = Some ''Char_nrm.png''"
    by (simp add: lower_def)
  have d: "decode (example_host [''Char_nrm.png''])
             (path_join (file_path char_processor) ''Char_nrm.png'') = Some white_pixel"
    by simp
  from import_texture_twice [OF l f d, of True char_scene True]
  obtain n1 n2 i1 i2 s1 s2 where
    r: "import_texture (example_host [''Char_nrm.png'']) char_processor ''_nrm'' True char_scene =
          (Inr (Some n1), s1)"
       "import_texture (example_host [''Char_nrm.png'']) char_processor ''_nrm'' True s1 =
          (Inr (Some n2), s2)"
       "n1 \<noteq> n2" "i1 \<noteq> i2"
       "nodes s2 = nodes char_scene @ [(new_node TEX_IMAGE)\<lparr>image := Some i1\<rparr>,
                                 (new_node TEX_IMAGE)\<lparr>image := Some i2\<rparr>]"
       "n1 = length (nodes char_scene)" "n2 = Suc (length (nodes char_scene))"
       "filepath (images s2 ! i1) = path_join (file_path char_processor) ''Char_nrm.png''"
       "filepath (images s2 ! i2) = path_join (file_path char_processor) ''Char_nrm.png''"
    by blast
  have "image (nodes s2 ! n1) = Some i1" "image (nodes s2 ! n2) = Some i2"
    using r(5,6,7) by (simp_all add: nth_append)
  moreover have "path_join (file_path char_processor) ''Char_nrm.png'' = ''/tex/Char_nrm.png''"
    by (simp add: path_join_def)
  ultimately show ?thesis using r by metis
qed

subsection \<open>C10: an emission texture node without an image\<close>

text \<open>
  Claim C10: when the link search of \<open>import_emission\<close> finds an image-texture node wired
  into the \<open>Emission Color\<close> input of the principled node and that node has no image,
  the operation changes nothing: no node, no link, no colour space. The source does not
  try \<open>_emm\<close> or \<open>_emi\<close> in this case, so this holds whatever the directory holds.
\<close>

theorem emission_imageless_noop:
  assumes "principled_node mp = Some p"
    and "find_emission_link p s = Some e"
    and "image (nodes s ! e) = None"
  shows "import_emission h mp s = Inr s"
  using assms by (simp add: import_emission_def emission_source_def)

theorem emission_imageless_noop_witness:
  "import_emission (example_host [''Lamp_emm.png'']) lamp_processor empty_emission_scene =
     Inr empty_emission_scene"
proof -
  have "find_emission_link 0 empty_emission_scene = Some 1"
    by (simp add: find_emission_link_def empty_emission_scene_def color_link_def new_node_def)
  moreover have "image (nodes empty_emission_scene ! 1) = None"
    by (simp add: empty_emission_scene_def new_node_def)
  ultimately show ?thesis
    using emission_imageless_noop [of lamp_processor 0 empty_emission_scene 1]
    by simp
qed

end
